theory Spec2Isabelle
  imports Main "HOL-Library.List_Lexorder"
begin

section \<open>Python strings\<close>

text \<open>
  A Python \<open>str\<close> is a sequence of Unicode code points, so it is modelled as a list of
  natural numbers (the code points), not as a list of bytes. \<open>ascii\<close> reads an ASCII
  literal of the source; the Japanese literals of the source are written as their
  code points. The host is taken to be POSIX: \<open>os.linesep\<close> is a line feed and
  \<open>os.path\<close> is \<open>posixpath\<close>.
\<close>

type_synonym pystr = "nat list"

definition ascii :: "string \<Rightarrow> pystr" where
  "ascii s = map of_char s"

definition LF :: nat where "LF = 0x0A"
definition CR :: nat where "CR = 0x0D"

text \<open>\<open>str.isspace\<close> of one character (CPython 3: the Unicode White\_Space code points
  together with the separators U+001C to U+001F).\<close>

definition isspace :: "nat \<Rightarrow> bool" where
  "isspace c \<longleftrightarrow>
     (0x09 \<le> c \<and> c \<le> 0x0D) \<or> (0x1C \<le> c \<and> c \<le> 0x20) \<or> c = 0x85 \<or> c = 0xA0 \<or>
     c = 0x1680 \<or> (0x2000 \<le> c \<and> c \<le> 0x200A) \<or> c = 0x2028 \<or> c = 0x2029 \<or>
     c = 0x202F \<or> c = 0x205F \<or> c = 0x3000"

text \<open>\<open>s.strip()\<close>: leading and trailing whitespace removed.\<close>

definition strip :: "pystr \<Rightarrow> pystr" where
  "strip s = rev (dropWhile isspace (rev (dropWhile isspace s)))"

text \<open>\<open>sep.join(xs)\<close>.\<close>

fun join :: "pystr \<Rightarrow> pystr list \<Rightarrow> pystr" where
  "join sep [] = []"
| "join sep [x] = x"
| "join sep (x # y # ys) = x @ sep @ join sep (y # ys)"

text \<open>Truthiness of an optional string: \<open>None\<close> and \<open>''\<close> are false.\<close>

definition truthy :: "pystr option \<Rightarrow> bool" where
  "truthy v \<longleftrightarrow> (case v of None \<Rightarrow> False | Some s \<Rightarrow> s \<noteq> [])"

section \<open>config.py\<close>

text \<open>
  The process environment is a map from variable names to values. \<open>load_dotenv()\<close>
  adds the pairs of the \<open>.env\<close> file for the names that the environment does not
  define already (its default, \<open>override=False\<close>).
\<close>

type_synonym environ = "string \<rightharpoonup> pystr"

definition load_dotenv :: "environ \<Rightarrow> environ \<Rightarrow> environ" where
  "load_dotenv dotenv_file os_environ = dotenv_file ++ os_environ"

definition getenv :: "environ \<Rightarrow> string \<Rightarrow> pystr option" where
  "getenv env k = env k"

definition getenv_default :: "environ \<Rightarrow> string \<Rightarrow> pystr \<Rightarrow> pystr option" where
  "getenv_default env k d = (case env k of None \<Rightarrow> Some d | Some v \<Rightarrow> Some v)"

text \<open>The dictionary \<open>env_vars\<close>: seven keys, in the order of the source; a value is
  \<open>None\<close> when \<open>os.getenv\<close> found nothing.\<close>

type_synonym env_vars = "(string \<times> pystr option) list"

definition build_env_vars :: "environ \<Rightarrow> env_vars" where
  "build_env_vars env =
     [(''google_credentials_path'', getenv env ''GOOGLE_CREDENTIALS_PATH''),
      (''google_drive_folder_id'', getenv env ''GOOGLE_DRIVE_FOLDER_ID''),
      (''slack_bot_token'', getenv env ''SLACK_BOT_TOKEN''),
      (''slack_channel_id'', getenv env ''SLACK_CHANNEL_ID''),
      (''google_ai_api_key'', getenv env ''GOOGLE_AI_API_KEY''),
      (''ai_model_name'', getenv_default env ''AI_MODEL_NAME'' (ascii ''gemini-pro'')),
      (''target_directory'', getenv_default env ''TARGET_DIRECTORY'' (ascii ''./downloads''))]"

definition required_vars :: "string list" where
  "required_vars =
     [''google_credentials_path'', ''google_drive_folder_id'', ''slack_bot_token'',
      ''slack_channel_id'', ''google_ai_api_key'']"

text \<open>\<open>d[k]\<close> on a key of the dictionary; a key that is absent gives \<open>None\<close> here, which
  no caller reaches: every key used below is one of the seven.\<close>

definition getitem :: "env_vars \<Rightarrow> string \<Rightarrow> pystr option" where
  "getitem d k = (case map_of d k of None \<Rightarrow> None | Some v \<Rightarrow> v)"

datatype config_error = ValueError pystr

text \<open>The message of the \<open>ValueError\<close>: a fixed Japanese sentence ("the following
  environment variables are not set: ") followed by the missing keys joined by \<open>', '\<close>.\<close>

definition missing_message :: pystr where
  "missing_message =
     [0x4EE5, 0x4E0B, 0x306E, 0x74B0, 0x5883, 0x5909, 0x6570, 0x304C, 0x8A2D, 0x5B9A] @
     [0x3055, 0x308C, 0x3066, 0x3044, 0x307E, 0x305B, 0x3093] @ ascii '': ''"

definition load_environment_variables :: "environ \<Rightarrow> environ \<Rightarrow> config_error + env_vars" where
  "load_environment_variables dotenv_file os_environ =
     (let env = load_dotenv dotenv_file os_environ;
          env_vars = build_env_vars env;
          missing_vars = filter (\<lambda>var. \<not> truthy (getitem env_vars var)) required_vars
      in if missing_vars \<noteq> []
         then Inl (ValueError (missing_message @ join (ascii '', '') (map ascii missing_vars)))
         else Inr env_vars)"

section \<open>The outside world\<close>

text \<open>
  Every call that leaves the program (Google Drive, the generation backend, Slack, the
  clock, the local file system) is answered by the \<open>world\<close>, a record of the answers
  that the run receives; an answer that is an exception is a value of its own. The calls
  made are recorded, in order, as a list of events. Failures are told apart by what the
  source logs at level warning or error (\<open>logger.info\<close> lines are not recorded).
\<close>

type_synonym bytes = "char list"

record drive_file =
  file_id :: pystr
  name :: pystr
  mimeType :: pystr
  modifiedTime :: pystr
  webViewLink :: pystr

text \<open>The answer of \<open>files().list(...).execute()\<close>: an exception, or a dictionary that
  may or may not have the key \<open>files\<close>. Each entry carries the five requested fields.\<close>

datatype list_result = ListRaises | ListResponse "drive_file list option"

datatype request = Export_media pystr pystr | Get_media pystr

text \<open>What \<open>MediaIoBaseDownload.next_chunk\<close> will answer, call after call: chunks with
  \<open>done = False\<close>, closed by a chunk with \<open>done = True\<close> or by an exception.\<close>

datatype downloader = Fails | Last bytes | More bytes downloader

datatype slack_result = SlackApiError | OtherException | Response bool

datatype text_object = Plain_text pystr bool | Mrkdwn pystr

datatype block = Header text_object | Divider | Section_block text_object
  | Context_block "text_object list"

datatype level = Warning | Error

datatype logmsg =
    NoTranscriptFound
  | ContentFetchFailed
  | DriveDownloadException
  | UnsupportedFileType pystr
  | FileContentException
  | SummaryFileNotFound pystr
  | SummaryFileEmpty
  | SummaryResponseEmpty
  | SummaryException
  | SlackPostNotOk
  | SlackApiErrorLogged
  | SlackPostException
  | SlackTestNotOk
  | SlackTestException
  | MainSlackTestFailed
  | MainDownloadFailed
  | MainSummaryFailed
  | MainPostFailed
  | MainException

datatype event =
    LoadCredentials pystr
  | BuildService
  | FilesList pystr pystr
  | Download request
  | Makedirs pystr
  | OpenWrite pystr
  | GenerateContent pystr pystr pystr
  | AuthTest pystr
  | ChatPostMessage pystr pystr pystr "block list"
  | Clock
  | Log level logmsg

record world =
  dotenv_file :: environ
  os_environ :: environ
  from_service_account_file :: "pystr \<Rightarrow> bool"
  build :: bool
  files_list :: "pystr \<Rightarrow> pystr \<Rightarrow> list_result"
  makedirs :: "pystr \<Rightarrow> bool"
  media :: "request \<Rightarrow> downloader"
  Document :: "bytes \<Rightarrow> pystr list option"
  now_strftime :: pystr
  open_w :: "pystr \<Rightarrow> bool"
  generate_content :: "pystr \<Rightarrow> pystr \<Rightarrow> pystr \<Rightarrow> pystr option"
  auth_test :: "pystr \<Rightarrow> slack_result"
  chat_postMessage :: "pystr \<Rightarrow> pystr \<Rightarrow> pystr \<Rightarrow> block list \<Rightarrow> slack_result"
  time_time :: int

text \<open>
  \<open>from_service_account_file\<close>, \<open>build\<close>, \<open>makedirs\<close> and \<open>open_w\<close> say whether the call
  returns (\<open>True\<close>) or raises. \<open>Document\<close> is python-docx: the texts of the paragraphs
  of the document in the bytes, or \<open>None\<close> when it raises. \<open>now_strftime\<close> is
  \<open>datetime.now().strftime("%Y%m%d_%H%M%S")\<close>. \<open>generate_content\<close> gives
  \<open>response.text\<close>, or \<open>None\<close> when the backend or the access to the text raises.
\<close>

text \<open>A path of the local file system holds a text file (its text as stored, before
  any newline translation), or something that exists but cannot be read as UTF-8 text.\<close>

datatype node = Unreadable | File pystr

type_synonym filesystem = "pystr \<rightharpoonup> node"

section \<open>Text files\<close>

text \<open>A code point that UTF-8 can encode: not a surrogate. \<open>f.write(s)\<close> raises
  \<open>UnicodeEncodeError\<close> on any other, before any part of \<open>s\<close> is written.\<close>

definition encodable :: "nat \<Rightarrow> bool" where
  "encodable c \<longleftrightarrow> c < 0xD800 \<or> (0xDFFF < c \<and> c < 0x110000)"

text \<open>The \<open>f.write\<close> calls of a \<open>with open(..., 'w')\<close> block, in order: the text in the file
  when the block is left, and whether every call returned.\<close>

fun write_all :: "pystr list \<Rightarrow> pystr \<Rightarrow> pystr \<times> bool" where
  "write_all [] written = (written, True)"
| "write_all (s # ss) written =
     (if list_all encodable s then write_all ss (written @ s) else (written, False))"

text \<open>Reading in text mode with the default \<open>newline=None\<close>: \<open>'\r\n'\<close> and \<open>'\r'\<close> are
  each translated to \<open>'\n'\<close>.\<close>

fun universal_newlines :: "pystr \<Rightarrow> pystr" where
  "universal_newlines [] = []"
| "universal_newlines [c] = [if c = CR then LF else c]"
| "universal_newlines (c # d # s) =
     (if c = CR \<and> d = LF then LF # universal_newlines s
      else if c = CR then LF # universal_newlines (d # s)
      else c # universal_newlines (d # s))"

text \<open>\<open>os.path.join(a, b)\<close> of \<open>posixpath\<close>.\<close>

definition path_join :: "pystr \<Rightarrow> pystr \<Rightarrow> pystr" where
  "path_join a b =
     (if b \<noteq> [] \<and> hd b = 0x2F then b
      else if a = [] \<or> last a = 0x2F then a @ b
      else a @ [0x2F] @ b)"

text \<open>\<open>bytes.decode('utf-8')\<close>, strict: \<open>None\<close> is \<open>UnicodeDecodeError\<close>.\<close>

definition continuation :: "nat \<Rightarrow> bool" where
  "continuation b \<longleftrightarrow> 0x80 \<le> b \<and> b \<le> 0xBF"

text \<open>The code point that starts with the byte \<open>b\<close>, given the bytes \<open>bs\<close> after it, and
  the number of those bytes that belong to it. Overlong forms, surrogates and values
  above U+10FFFF are rejected.\<close>

definition utf8_head :: "nat \<Rightarrow> nat list \<Rightarrow> (nat \<times> nat) option" where
  "utf8_head b bs =
     (if b < 0x80 then Some (b, 0)
      else if 0xC2 \<le> b \<and> b \<le> 0xDF then
        (case bs of
           b1 # _ \<Rightarrow>
             if continuation b1 then Some ((b - 0xC0) * 0x40 + (b1 - 0x80), 1) else None
         | _ \<Rightarrow> None)
      else if 0xE0 \<le> b \<and> b \<le> 0xEF then
        (case bs of
           b1 # b2 # _ \<Rightarrow>
             if (if b = 0xE0 then 0xA0 else 0x80) \<le> b1 \<and>
                b1 \<le> (if b = 0xED then 0x9F else 0xBF) \<and> continuation b2
             then Some ((b - 0xE0) * 0x1000 + (b1 - 0x80) * 0x40 + (b2 - 0x80), 2)
             else None
         | _ \<Rightarrow> None)
      else if 0xF0 \<le> b \<and> b \<le> 0xF4 then
        (case bs of
           b1 # b2 # b3 # _ \<Rightarrow>
             if (if b = 0xF0 then 0x90 else 0x80) \<le> b1 \<and>
                b1 \<le> (if b = 0xF4 then 0x8F else 0xBF) \<and> continuation b2 \<and> continuation b3
             then Some ((b - 0xF0) * 0x40000 + (b1 - 0x80) * 0x1000 + (b2 - 0x80) * 0x40 +
                        (b3 - 0x80), 3)
             else None
         | _ \<Rightarrow> None)
      else None)"

fun utf8 :: "nat list \<Rightarrow> pystr option" where
  "utf8 [] = Some []"
| "utf8 (b # bs) =
     (case utf8_head b bs of
        None \<Rightarrow> None
      | Some (c, n) \<Rightarrow> map_option ((#) c) (utf8 (drop n bs)))"

definition decode_utf8 :: "bytes \<Rightarrow> pystr option" where
  "decode_utf8 data = utf8 (map of_char data)"

section \<open>drive\_downloader.py\<close>

definition google_doc_mime :: pystr where
  "google_doc_mime = ascii ''application/vnd.google-apps.document''"

definition docx_mime :: pystr where
  "docx_mime = ascii ''application/vnd.openxmlformats-officedocument.wordprocessingml.document''"

definition text_plain :: pystr where
  "text_plain = ascii ''text/plain''"

text \<open>The loop \<open>while done is False: status, done = downloader.next_chunk()\<close>: the bytes
  gathered in \<open>file_io\<close>, or \<open>None\<close> when a call raises.\<close>

fun next_chunks :: "downloader \<Rightarrow> bytes \<Rightarrow> bytes option" where
  "next_chunks Fails file_io = None"
| "next_chunks (Last chunk) file_io = Some (file_io @ chunk)"
| "next_chunks (More chunk rest) file_io = next_chunks rest (file_io @ chunk)"

text \<open>The second half of \<open>_download_file_content\<close>: download what the request names and
  extract its text according to the type.\<close>

definition extract_content :: "world \<Rightarrow> request \<Rightarrow> pystr \<Rightarrow> pystr option \<times> event list" where
  "extract_content w req mime_type =
     (case next_chunks (media w req) [] of
        None \<Rightarrow> (None, [Download req, Log Error FileContentException])
      | Some data \<Rightarrow>
          if mime_type = docx_mime then
            (case Document w data of
               None \<Rightarrow> (None, [Download req, Log Error FileContentException])
             | Some paragraphs \<Rightarrow> (Some (join [LF] paragraphs), [Download req]))
          else
            (case decode_utf8 data of
               None \<Rightarrow> (None, [Download req, Log Error FileContentException])
             | Some content \<Rightarrow> (Some content, [Download req])))"

definition download_file_content :: "world \<Rightarrow> pystr \<Rightarrow> pystr \<Rightarrow> pystr option \<times> event list" where
  "download_file_content w fid mime_type =
     (if mime_type = google_doc_mime then
        extract_content w (Export_media fid text_plain) mime_type
      else if mime_type = docx_mime then extract_content w (Get_media fid) mime_type
      else if mime_type = text_plain then extract_content w (Get_media fid) mime_type
      else (None, [Log Warning (UnsupportedFileType mime_type)]))"

text \<open>The query: the folder, and a name that contains one of three words (the first is
  the Japanese for "recording of the meeting").\<close>

definition drive_query :: "pystr \<Rightarrow> pystr" where
  "drive_query folder_id =
     [0x27] @ folder_id @ [0x27] @ ascii '' in parents and (name contains '' @
     [0x27, 0x4F1A, 0x8B70, 0x306E, 0x9332, 0x97F3, 0x27] @ ascii '' or name contains '' @
     [0x27] @ ascii ''meeting'' @ [0x27] @ ascii '' or name contains '' @ [0x27] @
     ascii ''transcript'' @ [0x27] @ ascii '')''"

definition order_by :: pystr where
  "order_by = ascii ''modifiedTime desc''"

text \<open>\<open>results.get('files', [])\<close>.\<close>

definition get_files :: "drive_file list option \<Rightarrow> drive_file list" where
  "get_files r = (case r of None \<Rightarrow> [] | Some files \<Rightarrow> files)"

text \<open>\<open>if not files: return None, None\<close> and \<open>latest_file = files[0]\<close>.\<close>

definition select_latest :: "drive_file list \<Rightarrow> drive_file option" where
  "select_latest files = (case files of [] \<Rightarrow> None | latest_file # _ \<Rightarrow> Some latest_file)"

text \<open>The header of the artifact, as the five \<open>f.write\<close> calls before the content give
  it: a title ("meeting transcript"), the original file name, the time of the last
  change, the original URL, and the heading "content".\<close>

definition header_chunks :: "drive_file \<Rightarrow> pystr list" where
  "header_chunks latest_file =
     [ascii ''# '' @ [0x4F1A, 0x8B70, 0x6587, 0x5B57, 0x8D77, 0x3053, 0x3057, 0xA, 0xA],
      ascii ''**'' @ [0x5143, 0x30D5, 0x30A1, 0x30A4, 0x30EB, 0x540D] @ ascii '':** '' @
        name latest_file @ [0xA],
      ascii ''**'' @ [0x66F4, 0x65B0, 0x65E5, 0x6642] @ ascii '':** '' @
        modifiedTime latest_file @ [0xA],
      ascii ''**'' @ [0x5143, 0x306E] @ ascii ''URL:** '' @ webViewLink latest_file @ [0xA, 0xA],
      ascii ''## '' @ [0x5185, 0x5BB9, 0xA, 0xA]]"

definition md_path :: "world \<Rightarrow> pystr \<Rightarrow> pystr" where
  "md_path w target_directory =
     path_join target_directory (ascii ''transcript_'' @ now_strftime w @ ascii ''.md'')"

text \<open>The part of \<open>download_latest_transcript_from_drive\<close> after the content is there:
  the file is opened (created or emptied), the six writes are made, the file is closed.\<close>

definition save_markdown ::
  "world \<Rightarrow> pystr \<Rightarrow> drive_file \<Rightarrow> pystr \<Rightarrow> filesystem \<Rightarrow>
     (pystr option \<times> pystr option) \<times> filesystem \<times> event list" where
  "save_markdown w target_directory latest_file content fs =
     (let md_filepath = md_path w target_directory
      in if \<not> open_w w md_filepath
         then ((None, None), fs, [OpenWrite md_filepath, Log Error DriveDownloadException])
         else (case write_all (header_chunks latest_file @ [content]) [] of
                 (written, False) \<Rightarrow>
                   ((None, None), fs(md_filepath \<mapsto> File written),
                    [OpenWrite md_filepath, Log Error DriveDownloadException])
               | (written, True) \<Rightarrow>
                   ((Some md_filepath, Some (webViewLink latest_file)),
                    fs(md_filepath \<mapsto> File written), [OpenWrite md_filepath])))"

text \<open>The part after the listing: the latest file is chosen, the directory is made, the
  content is fetched and saved.\<close>

definition fetch_and_save ::
  "world \<Rightarrow> pystr \<Rightarrow> drive_file list \<Rightarrow> filesystem \<Rightarrow>
     (pystr option \<times> pystr option) \<times> filesystem \<times> event list" where
  "fetch_and_save w target_directory files fs =
     (case select_latest files of
        None \<Rightarrow> ((None, None), fs, [Log Warning NoTranscriptFound])
      | Some latest_file \<Rightarrow>
          if \<not> makedirs w target_directory
          then ((None, None), fs, [Makedirs target_directory, Log Error DriveDownloadException])
          else (case download_file_content w (file_id latest_file) (mimeType latest_file) of
                  (None, t) \<Rightarrow>
                    ((None, None), fs, Makedirs target_directory # t @ [Log Error ContentFetchFailed])
                | (Some content, t) \<Rightarrow>
                    (case save_markdown w target_directory latest_file content fs of
                       (r, fs', t') \<Rightarrow> (r, fs', Makedirs target_directory # t @ t'))))"

definition download_latest_transcript_from_drive ::
  "world \<Rightarrow> pystr \<Rightarrow> pystr \<Rightarrow> pystr \<Rightarrow> filesystem \<Rightarrow>
     (pystr option \<times> pystr option) \<times> filesystem \<times> event list" where
  "download_latest_transcript_from_drive w folder_id credentials_path target_directory fs =
     (if \<not> from_service_account_file w credentials_path
      then ((None, None), fs, [LoadCredentials credentials_path, Log Error DriveDownloadException])
      else if \<not> build w
      then ((None, None), fs,
            [LoadCredentials credentials_path, BuildService, Log Error DriveDownloadException])
      else (case files_list w (drive_query folder_id) order_by of
              ListRaises \<Rightarrow>
                ((None, None), fs,
                 [LoadCredentials credentials_path, BuildService,
                  FilesList (drive_query folder_id) order_by, Log Error DriveDownloadException])
            | ListResponse r \<Rightarrow>
                (case fetch_and_save w target_directory (get_files r) fs of
                   (res, fs', t) \<Rightarrow>
                     (res, fs',
                      [LoadCredentials credentials_path, BuildService,
                       FilesList (drive_query folder_id) order_by] @ t))))"

section \<open>ai\_summarizer.py\<close>

text \<open>\<open>with open(file_path, 'r', encoding='utf-8') as f: content = f.read()\<close>; \<open>None\<close>
  when opening or decoding raises.\<close>

definition read_text :: "filesystem \<Rightarrow> pystr \<Rightarrow> pystr option" where
  "read_text fs file_path =
     (case fs file_path of
        Some (File stored) \<Rightarrow> Some (universal_newlines stored)
      | _ \<Rightarrow> None)"

text \<open>The prompt: a fixed Japanese template (the four sections of the summary and their
  fallback words) around the text of the transcript.\<close>

definition prompt_head :: pystr where
  "prompt_head =
     [0xA, 0x4EE5, 0x4E0B, 0x306F, 0x4F1A, 0x8B70, 0x306E, 0x6587, 0x5B57, 0x8D77] @
     [0x3053, 0x3057, 0x3067, 0x3059, 0x3002, 0x3053, 0x306E, 0x5185, 0x5BB9, 0x3092] @
     [0x4EE5, 0x4E0B, 0x306E, 0x5F62, 0x5F0F, 0x3067, 0x8981, 0x7D04, 0x3057, 0x3066] @
     [0x304F, 0x3060, 0x3055, 0x3044, 0xFF1A, 0xA, 0xA, 0x3010, 0x8981, 0x7D04] @
     [0x5F62, 0x5F0F, 0x3011, 0xA] @ ascii ''## '' @ [0x1F4CB] @ ascii '' '' @
     [0x4F1A, 0x8B70, 0x8981, 0x7D04, 0xA, 0xA] @ ascii ''### '' @ [0x1F3AF] @ ascii '' '' @
     [0x4E3B, 0x8981, 0x8B70, 0x984C, 0xA] @ ascii ''- '' @
     [0x91CD, 0x8981, 0x306A, 0x30DD, 0x30A4, 0x30F3, 0x30C8, 0x3092] @ ascii ''3-5'' @
     [0x70B9, 0x3067, 0x7C21, 0x6F54, 0x306B, 0x307E, 0x3068, 0x3081, 0x3066, 0x304F] @
     [0x3060, 0x3055, 0x3044, 0xA, 0xA] @ ascii ''### '' @ [0x1F4A1] @ ascii '' '' @
     [0x6C7A, 0x5B9A, 0x4E8B, 0x9805, 0xA] @ ascii ''- '' @
     [0x4F1A, 0x8B70, 0x3067, 0x6C7A, 0x5B9A, 0x3055, 0x308C, 0x305F, 0x4E8B, 0x9805] @
     [0x304C, 0x3042, 0x308C, 0x3070, 0x7B87, 0x6761, 0x66F8, 0x304D, 0x3067, 0x8A18] @
     [0x8F09, 0x3057, 0x3066, 0x304F, 0x3060, 0x3055, 0x3044, 0xA] @ ascii ''- '' @
     [0x6C7A, 0x5B9A, 0x4E8B, 0x9805, 0x304C, 0x306A, 0x3044, 0x5834, 0x5408, 0x306F] @
     [0x300C, 0x306A, 0x3057, 0x300D, 0x3068, 0x8A18, 0x8F09, 0x3057, 0x3066, 0x304F] @
     [0x3060, 0x3055, 0x3044, 0xA, 0xA] @ ascii ''### '' @ [0x1F4DD] @ ascii '' '' @
     [0x6B21, 0x56DE, 0x30A2, 0x30AF, 0x30B7, 0x30E7, 0x30F3, 0x30FB, 0x30BF, 0x30B9] @
     [0x30AF, 0xA] @ ascii ''- '' @
     [0x4ECA, 0x5F8C, 0x5B9F, 0x884C, 0x3059, 0x3079, 0x304D, 0x30A2, 0x30AF, 0x30B7] @
     [0x30E7, 0x30F3, 0x3084, 0x30BF, 0x30B9, 0x30AF, 0x304C, 0x3042, 0x308C, 0x3070] @
     [0x62C5, 0x5F53, 0x8005, 0x3068, 0x671F, 0x9650, 0x3092, 0x542B, 0x3081, 0x3066] @
     [0x8A18, 0x8F09, 0x3057, 0x3066, 0x304F, 0x3060, 0x3055, 0x3044, 0xA] @ ascii ''- '' @
     [0x30A2, 0x30AF, 0x30B7, 0x30E7, 0x30F3, 0x304C, 0x306A, 0x3044, 0x5834, 0x5408] @
     [0x306F, 0x300C, 0x306A, 0x3057, 0x300D, 0x3068, 0x8A18, 0x8F09, 0x3057, 0x3066] @
     [0x304F, 0x3060, 0x3055, 0x3044, 0xA, 0xA] @ ascii ''### '' @ [0x1F4C5] @ ascii '' '' @
     [0x6B21, 0x56DE, 0x4F1A, 0x8B70, 0xA] @ ascii ''- '' @
     [0x6B21, 0x56DE, 0x4F1A, 0x8B70, 0x306E, 0x4E88, 0x5B9A, 0x304C, 0x3042, 0x308C] @
     [0x3070, 0x8A18, 0x8F09, 0x3057, 0x3066, 0x304F, 0x3060, 0x3055, 0x3044, 0xA] @
     ascii ''- '' @
     [0x4E88, 0x5B9A, 0x304C, 0x306A, 0x3044, 0x5834, 0x5408, 0x306F, 0x300C, 0x672A] @
     [0x5B9A, 0x300D, 0x3068, 0x8A18, 0x8F09, 0x3057, 0x3066, 0x304F, 0x3060, 0x3055] @
     [0x3044, 0xA, 0xA, 0x3010, 0x6587, 0x5B57, 0x8D77, 0x3053, 0x3057, 0x5185] @
     [0x5BB9, 0x3011, 0xA]"

definition prompt_tail :: pystr where
  "prompt_tail =
     [0xA, 0xA, 0x4E0A, 0x8A18, 0x306E, 0x5185, 0x5BB9, 0x3092, 0x8AAD, 0x307F] @
     [0x3084, 0x3059, 0x304F, 0x3001, 0x8981, 0x70B9, 0x3092, 0x6574, 0x7406, 0x3057] @
     [0x3066, 0x8981, 0x7D04, 0x3057, 0x3066, 0x304F, 0x3060, 0x3055, 0x3044, 0x3002] @
     [0x5C02, 0x9580, 0x7528, 0x8A9E, 0x304C, 0x3042, 0x308B, 0x5834, 0x5408, 0x306F] @
     [0x7C21, 0x6F54, 0x306B, 0x8AAC, 0x660E, 0x3092, 0x52A0, 0x3048, 0x3066, 0x304F] @
     [0x3060, 0x3055, 0x3044, 0x3002, 0xA]"

definition create_summary_prompt :: "pystr \<Rightarrow> pystr" where
  "create_summary_prompt content = prompt_head @ content @ prompt_tail"

definition summarize_transcript_with_ai ::
  "world \<Rightarrow> pystr \<Rightarrow> pystr \<Rightarrow> pystr \<Rightarrow> filesystem \<Rightarrow> pystr option \<times> event list" where
  "summarize_transcript_with_ai w file_path ai_api_key model_name fs =
     (if fs file_path = None then (None, [Log Error (SummaryFileNotFound file_path)])
      else (case read_text fs file_path of
              None \<Rightarrow> (None, [Log Error SummaryException])
            | Some content \<Rightarrow>
                if strip content = [] then (None, [Log Error SummaryFileEmpty])
                else (let prompt = create_summary_prompt content
                      in case generate_content w ai_api_key model_name prompt of
                           None \<Rightarrow>
                             (None, [GenerateContent ai_api_key model_name prompt,
                                     Log Error SummaryException])
                         | Some text \<Rightarrow>
                             if text \<noteq> []
                             then (Some (strip text), [GenerateContent ai_api_key model_name prompt])
                             else (None, [GenerateContent ai_api_key model_name prompt,
                                          Log Error SummaryResponseEmpty]))))"

section \<open>slack\_poster.py\<close>

text \<open>\<open>str(n)\<close> for an integer.\<close>

function str_nat :: "nat \<Rightarrow> pystr" where
  "str_nat n = (if n < 10 then [0x30 + n] else str_nat (n div 10) @ [0x30 + n mod 10])"
  by pat_completeness auto
termination
  by (relation "measure id") auto

declare str_nat.simps [simp del]

definition str_int :: "int \<Rightarrow> pystr" where
  "str_int i = (if i < 0 then 0x2D # str_nat (nat (- i)) else str_nat (nat i))"

text \<open>The blocks of the message: a header ("meeting summary report"), the summary, a
  link to the original document, and a line with the time of generation, for which the
  clock is read.\<close>

definition create_slack_message :: "world \<Rightarrow> pystr \<Rightarrow> pystr \<Rightarrow> block list \<times> event list" where
  "create_slack_message w summary_text google_doc_url =
     ([Header (Plain_text ([0x1F4DD] @ ascii '' '' @
          [0x4F1A, 0x8B70, 0x8981, 0x7D04, 0x30EC, 0x30DD, 0x30FC, 0x30C8]) True),
       Divider,
       Section_block (Mrkdwn summary_text),
       Divider,
       Section_block (Mrkdwn ([0x1F4C4] @ ascii '' *'' @ [0x5143, 0x306E, 0x6587, 0x66F8] @ ascii '':* <'' @ google_doc_url @
          ascii ''|Google Doc'' @ [0x3092, 0x958B, 0x304F] @ ascii ''>'')),
       Context_block [Mrkdwn ([0x1F916] @ ascii '' '' @
          [0x81EA, 0x52D5, 0x751F, 0x6210, 0x3055, 0x308C, 0x305F, 0x8981, 0x7D04] @
          ascii '' | '' @ [0x751F, 0x6210, 0x65E5, 0x6642] @ ascii '': <!date^'' @
          str_int (time_time w) @
          ascii ''^{date_short_pretty} {time}|'' @ [0x30A8, 0x30E9, 0x30FC] @ ascii ''>'')]],
      [Clock])"

text \<open>The plain text that goes with the blocks ("the summary of the meeting is done").\<close>

definition notification_text :: pystr where
  "notification_text =
     [0x1F4DD] @ ascii '' '' @
     [0x4F1A, 0x8B70, 0x306E, 0x8981, 0x7D04, 0x304C, 0x5B8C, 0x4E86, 0x3057, 0x307E] @
     [0x3057, 0x305F]"

definition post_summary_to_slack ::
  "world \<Rightarrow> pystr \<Rightarrow> pystr \<Rightarrow> pystr \<Rightarrow> pystr \<Rightarrow> bool \<times> event list" where
  "post_summary_to_slack w slack_token channel_id summary_text google_doc_url =
     (case create_slack_message w summary_text google_doc_url of
        (blocks, t) \<Rightarrow>
          (let post = ChatPostMessage slack_token channel_id notification_text blocks
           in case chat_postMessage w slack_token channel_id notification_text blocks of
                Response ok \<Rightarrow>
                  if ok then (True, t @ [post])
                  else (False, t @ [post, Log Error SlackPostNotOk])
              | SlackApiError \<Rightarrow> (False, t @ [post, Log Error SlackApiErrorLogged])
              | OtherException \<Rightarrow> (False, t @ [post, Log Error SlackPostException])))"

definition test_slack_connection :: "world \<Rightarrow> pystr \<Rightarrow> bool \<times> event list" where
  "test_slack_connection w slack_token =
     (case auth_test w slack_token of
        Response ok \<Rightarrow>
          if ok then (True, [AuthTest slack_token])
          else (False, [AuthTest slack_token, Log Error SlackTestNotOk])
      | SlackApiError \<Rightarrow> (False, [AuthTest slack_token, Log Error SlackApiErrorLogged])
      | OtherException \<Rightarrow> (False, [AuthTest slack_token, Log Error SlackTestException]))"

section \<open>main.py\<close>

text \<open>\<open>env_vars[k]\<close> where the source uses the value as a string: after
  \<open>load_environment_variables\<close> has returned, each of the seven values is one.\<close>

definition item :: "env_vars \<Rightarrow> string \<Rightarrow> pystr" where
  "item d k = the (getitem d k)"

definition main :: "world \<Rightarrow> filesystem \<Rightarrow> bool \<times> filesystem \<times> event list" where
  "main w fs =
     (case load_environment_variables (dotenv_file w) (os_environ w) of
        Inl e \<Rightarrow> (False, fs, [Log Error MainException])
      | Inr env_vars \<Rightarrow>
          (case test_slack_connection w (item env_vars ''slack_bot_token'') of
             (False, t1) \<Rightarrow> (False, fs, t1 @ [Log Error MainSlackTestFailed])
           | (True, t1) \<Rightarrow>
               (case download_latest_transcript_from_drive w
                       (item env_vars ''google_drive_folder_id'')
                       (item env_vars ''google_credentials_path'')
                       (item env_vars ''target_directory'') fs of
                  ((file_path, google_doc_url), fs', t2) \<Rightarrow>
                    if \<not> truthy file_path \<or> \<not> truthy google_doc_url
                    then (False, fs', t1 @ t2 @ [Log Error MainDownloadFailed])
                    else
                      (case summarize_transcript_with_ai w (the file_path)
                              (item env_vars ''google_ai_api_key'')
                              (item env_vars ''ai_model_name'') fs' of
                         (summary_text, t3) \<Rightarrow>
                           if \<not> truthy summary_text
                           then (False, fs', t1 @ t2 @ t3 @ [Log Error MainSummaryFailed])
                           else
                             (case post_summary_to_slack w (item env_vars ''slack_bot_token'')
                                     (item env_vars ''slack_channel_id'') (the summary_text)
                                     (the google_doc_url) of
                                (success, t4) \<Rightarrow>
                                  if \<not> success
                                  then (False, fs', t1 @ t2 @ t3 @ t4 @ [Log Error MainPostFailed])
                                  else (True, fs', t1 @ t2 @ t3 @ t4))))))"

section \<open>Notions used in the properties\<close>

text \<open>Calls to the document store (credentials, service, listing, download) and to the
  generation backend, among the events of a run.\<close>

fun document_store_call :: "event \<Rightarrow> bool" where
  "document_store_call (LoadCredentials _) = True"
| "document_store_call BuildService = True"
| "document_store_call (FilesList _ _) = True"
| "document_store_call (Download _) = True"
| "document_store_call _ = False"

fun generation_call :: "event \<Rightarrow> bool" where
  "generation_call (GenerateContent _ _ _) = True"
| "generation_call _ = False"

text \<open>The two calls to the chat backend, and the reading of the clock, which happens
  only while the message is built.\<close>

fun auth_call :: "event \<Rightarrow> bool" where
  "auth_call (AuthTest _) = True"
| "auth_call _ = False"

fun post_call :: "event \<Rightarrow> bool" where
  "post_call (ChatPostMessage _ _ _ _) = True"
| "post_call _ = False"

fun message_built :: "event \<Rightarrow> bool" where
  "message_built Clock = True"
| "message_built _ = False"

text \<open>The listing honours \<open>orderBy='modifiedTime desc'\<close>: the times of last change never
  increase along it. The reading \<open>at\<close> of a time stamp is any map into a linear order (for
  the RFC 3339 stamps of Drive, which are all in UTC and of one width, the stamp itself,
  ordered as a string).\<close>

definition newest_first :: "(pystr \<Rightarrow> 'k::linorder) \<Rightarrow> drive_file list \<Rightarrow> bool" where
  "newest_first at files =
     sorted_wrt (\<lambda>f g. at (modifiedTime g) \<le> at (modifiedTime f)) files"

text \<open>The selection in the words of the specification: sort the matches by the time of
  last change, latest first, without moving equal ones past each other, and take the
  first.\<close>

fun insert_desc :: "(pystr \<Rightarrow> 'k::linorder) \<Rightarrow> drive_file \<Rightarrow> drive_file list \<Rightarrow> drive_file list" where
  "insert_desc at f [] = [f]"
| "insert_desc at f (g # gs) =
     (if at (modifiedTime g) \<le> at (modifiedTime f) then f # g # gs
      else g # insert_desc at f gs)"

definition sort_desc :: "(pystr \<Rightarrow> 'k::linorder) \<Rightarrow> drive_file list \<Rightarrow> drive_file list" where
  "sort_desc at files = foldr (insert_desc at) files []"

definition spec_select_latest :: "(pystr \<Rightarrow> 'k::linorder) \<Rightarrow> drive_file list \<Rightarrow> drive_file option" where
  "spec_select_latest at files = (case sort_desc at files of [] \<Rightarrow> None | f # _ \<Rightarrow> Some f)"

text \<open>The header of an artifact as one text, and the body section of a text that starts
  with that header: what follows it.\<close>

definition artifact_header :: "drive_file \<Rightarrow> pystr" where
  "artifact_header latest_file = concat (header_chunks latest_file)"

definition body_section :: "drive_file \<Rightarrow> pystr \<Rightarrow> pystr" where
  "body_section latest_file text = drop (length (artifact_header latest_file)) text"

section \<open>A run to try the properties on\<close>

text \<open>One folder with one plain-text transcript, a complete environment, and backends
  that all answer; the properties below are tried on this world and on variations of
  it.\<close>

definition meeting_file :: drive_file where
  "meeting_file =
     \<lparr>file_id = ascii ''f1'', name = ascii ''meeting_2024'', mimeType = text_plain,
      modifiedTime = ascii ''2024-05-02T09:00:00.000Z'',
      webViewLink = ascii ''https://docs.google.com/document/d/f1''\<rparr>"

text \<open>Two more entries of a folder: one changed at the same moment as the first, one
  changed two days before.\<close>

definition twin_file :: drive_file where
  "twin_file = meeting_file\<lparr>file_id := ascii ''f2'', name := ascii ''transcript_b''\<rparr>"

definition older_file :: drive_file where
  "older_file =
     \<lparr>file_id = ascii ''f0'', name = ascii ''meeting_2024_04'', mimeType = text_plain,
      modifiedTime = ascii ''2024-04-30T17:30:00.000Z'',
      webViewLink = ascii ''https://docs.google.com/document/d/f0''\<rparr>"

definition office_environ :: environ where
  "office_environ =
     [''GOOGLE_CREDENTIALS_PATH'' \<mapsto> ascii ''key.json'',
      ''GOOGLE_DRIVE_FOLDER_ID'' \<mapsto> ascii ''folder'',
      ''SLACK_BOT_TOKEN'' \<mapsto> ascii ''xoxb'',
      ''SLACK_CHANNEL_ID'' \<mapsto> ascii ''C42'',
      ''GOOGLE_AI_API_KEY'' \<mapsto> ascii ''aikey'']"

text \<open>The dictionary that the configuration of this world resolves to.\<close>

definition office_env_vars :: env_vars where
  "office_env_vars =
     [(''google_credentials_path'', Some (ascii ''key.json'')),
      (''google_drive_folder_id'', Some (ascii ''folder'')),
      (''slack_bot_token'', Some (ascii ''xoxb'')),
      (''slack_channel_id'', Some (ascii ''C42'')),
      (''google_ai_api_key'', Some (ascii ''aikey'')),
      (''ai_model_name'', Some (ascii ''gemini-pro'')),
      (''target_directory'', Some (ascii ''./downloads''))]"

definition office_world :: world where
  "office_world =
     \<lparr>dotenv_file = Map.empty,
      os_environ = office_environ,
      from_service_account_file = (\<lambda>_. True),
      build = True,
      files_list = (\<lambda>_ _. ListResponse (Some [meeting_file])),
      makedirs = (\<lambda>_. True),
      media = (\<lambda>_. More ''Discussed X. '' (Last ''Decided Y.'')),
      Document = (\<lambda>_. None),
      now_strftime = ascii ''20240502_101500'',
      open_w = (\<lambda>_. True),
      generate_content = (\<lambda>_ _ _. Some (ascii ''## Summary'')),
      auth_test = (\<lambda>_. Response True),
      chat_postMessage = (\<lambda>_ _ _ _. Response True),
      time_time = 1714644900\<rparr>"

section \<open>Auxiliary facts\<close>

lemma ascii_simps: "ascii [] = []" "ascii (c # s) = of_char c # ascii s"
  by (simp_all add: ascii_def)

lemma write_all_result:
  "write_all ss acc =
     (acc @ concat (takeWhile (list_all encodable) ss), list_all (list_all encodable) ss)"
  by (induction ss arbitrary: acc) auto

lemma office_download:
  "download_latest_transcript_from_drive office_world (ascii ''folder'') (ascii ''key.json'')
      (ascii ''./downloads'') Map.empty =
   ((Some (ascii ''./downloads/transcript_20240502_101500.md''),
     Some (ascii ''https://docs.google.com/document/d/f1'')),
    [ascii ''./downloads/transcript_20240502_101500.md'' \<mapsto>
       File (artifact_header meeting_file @ ascii ''Discussed X. Decided Y.'')],
    [LoadCredentials (ascii ''key.json''), BuildService,
     FilesList (drive_query (ascii ''folder'')) order_by,
     Makedirs (ascii ''./downloads''), Download (Get_media (ascii ''f1'')),
     OpenWrite (ascii ''./downloads/transcript_20240502_101500.md'')])"
  by (simp add: download_latest_transcript_from_drive_def office_world_def get_files_def
      fetch_and_save_def select_latest_def meeting_file_def download_file_content_def
      text_plain_def google_doc_mime_def docx_mime_def extract_content_def decode_utf8_def
      utf8_head_def save_markdown_def md_path_def path_join_def write_all_result
      header_chunks_def encodable_def ascii_simps artifact_header_def Let_def)

lemma office_config:
  "load_environment_variables (dotenv_file office_world) (os_environ office_world) =
     Inr office_env_vars"
  by (simp add: load_environment_variables_def office_world_def office_environ_def
      load_dotenv_def build_env_vars_def getenv_def getenv_default_def required_vars_def
      getitem_def truthy_def ascii_simps office_env_vars_def)

lemma office_items:
  "item office_env_vars ''google_credentials_path'' = ascii ''key.json''"
  "item office_env_vars ''google_drive_folder_id'' = ascii ''folder''"
  "item office_env_vars ''slack_bot_token'' = ascii ''xoxb''"
  "item office_env_vars ''slack_channel_id'' = ascii ''C42''"
  "item office_env_vars ''google_ai_api_key'' = ascii ''aikey''"
  "item office_env_vars ''ai_model_name'' = ascii ''gemini-pro''"
  "item office_env_vars ''target_directory'' = ascii ''./downloads''"
  by (simp_all add: item_def getitem_def office_env_vars_def)

lemma test_slack_connection_events:
  "\<forall>e\<in>set (snd (test_slack_connection w token)).
     \<not> document_store_call e \<and> \<not> generation_call e \<and> \<not> post_call e \<and> \<not> message_built e"
  by (simp add: test_slack_connection_def split: slack_result.splits)

section \<open>Configuration\<close>

text \<open>
  Claim C7. Resolution of the configuration fails exactly when a required setting is
  absent or empty, and the error then names every such key (in the order of the list of
  required keys, joined by a comma and a space), not only the first. When none is
  missing, the whole dictionary is returned, with the model name and the target
  directory replaced by their defaults where the environment does not define them.
\<close>

theorem load_environment_variables_lists_every_missing_key:
  "load_environment_variables dotenv environ0 =
     (let env = load_dotenv dotenv environ0;
          missing =
            (if truthy (env ''GOOGLE_CREDENTIALS_PATH'') then [] else [''google_credentials_path'']) @
            (if truthy (env ''GOOGLE_DRIVE_FOLDER_ID'') then [] else [''google_drive_folder_id'']) @
            (if truthy (env ''SLACK_BOT_TOKEN'') then [] else [''slack_bot_token'']) @
            (if truthy (env ''SLACK_CHANNEL_ID'') then [] else [''slack_channel_id'']) @
            (if truthy (env ''GOOGLE_AI_API_KEY'') then [] else [''google_ai_api_key''])
      in if missing = []
         then Inr [(''google_credentials_path'', env ''GOOGLE_CREDENTIALS_PATH''),
                   (''google_drive_folder_id'', env ''GOOGLE_DRIVE_FOLDER_ID''),
                   (''slack_bot_token'', env ''SLACK_BOT_TOKEN''),
                   (''slack_channel_id'', env ''SLACK_CHANNEL_ID''),
                   (''google_ai_api_key'', env ''GOOGLE_AI_API_KEY''),
                   (''ai_model_name'',
                    Some (case env ''AI_MODEL_NAME'' of
                            None \<Rightarrow> ascii ''gemini-pro'' | Some v \<Rightarrow> v)),
                   (''target_directory'',
                    Some (case env ''TARGET_DIRECTORY'' of
                            None \<Rightarrow> ascii ''./downloads'' | Some v \<Rightarrow> v))]
         else Inl (ValueError (missing_message @ join (ascii '', '') (map ascii missing))))"
proof -
  have item: "getitem (build_env_vars env) k =
      (if k = ''google_credentials_path'' then env ''GOOGLE_CREDENTIALS_PATH''
       else if k = ''google_drive_folder_id'' then env ''GOOGLE_DRIVE_FOLDER_ID''
       else if k = ''slack_bot_token'' then env ''SLACK_BOT_TOKEN''
       else if k = ''slack_channel_id'' then env ''SLACK_CHANNEL_ID''
       else if k = ''google_ai_api_key'' then env ''GOOGLE_AI_API_KEY''
       else if k = ''ai_model_name'' then getenv_default env ''AI_MODEL_NAME'' (ascii ''gemini-pro'')
       else if k = ''target_directory'' then getenv_default env ''TARGET_DIRECTORY'' (ascii ''./downloads'')
       else None)" for env k
    by (simp add: getitem_def build_env_vars_def getenv_def)
  have dflt: "getenv_default env k d = Some (case env k of None \<Rightarrow> d | Some v \<Rightarrow> v)" for env k d
    by (simp add: getenv_default_def split: option.splits)
  show ?thesis
    unfolding load_environment_variables_def Let_def required_vars_def
    by (simp add: item) (simp add: build_env_vars_def getenv_def dflt)
qed

theorem load_environment_variables_lists_every_missing_key_witness:
  "load_environment_variables
     [''SLACK_CHANNEL_ID'' \<mapsto> ascii ''C1'', ''GOOGLE_AI_API_KEY'' \<mapsto> []]
     [''GOOGLE_CREDENTIALS_PATH'' \<mapsto> ascii ''k.json'', ''GOOGLE_DRIVE_FOLDER_ID'' \<mapsto> ascii ''f'']
   = Inl (ValueError (missing_message @ ascii ''slack_bot_token, google_ai_api_key''))
   \<and> load_environment_variables
     [''SLACK_CHANNEL_ID'' \<mapsto> ascii ''C1'', ''GOOGLE_AI_API_KEY'' \<mapsto> ascii ''a'',
      ''SLACK_BOT_TOKEN'' \<mapsto> ascii ''x'', ''AI_MODEL_NAME'' \<mapsto> ascii ''m'']
     [''GOOGLE_CREDENTIALS_PATH'' \<mapsto> ascii ''k.json'', ''GOOGLE_DRIVE_FOLDER_ID'' \<mapsto> ascii ''f'']
   = Inr [(''google_credentials_path'', Some (ascii ''k.json'')),
          (''google_drive_folder_id'', Some (ascii ''f'')),
          (''slack_bot_token'', Some (ascii ''x'')),
          (''slack_channel_id'', Some (ascii ''C1'')),
          (''google_ai_api_key'', Some (ascii ''a'')),
          (''ai_model_name'', Some (ascii ''m'')),
          (''target_directory'', Some (ascii ''./downloads''))]"
  using load_environment_variables_lists_every_missing_key
          [of "[''SLACK_CHANNEL_ID'' \<mapsto> ascii ''C1'', ''GOOGLE_AI_API_KEY'' \<mapsto> []]"
              "[''GOOGLE_CREDENTIALS_PATH'' \<mapsto> ascii ''k.json'', ''GOOGLE_DRIVE_FOLDER_ID'' \<mapsto> ascii ''f'']"]
        load_environment_variables_lists_every_missing_key
          [of "[''SLACK_CHANNEL_ID'' \<mapsto> ascii ''C1'', ''GOOGLE_AI_API_KEY'' \<mapsto> ascii ''a'',
      ''SLACK_BOT_TOKEN'' \<mapsto> ascii ''x'', ''AI_MODEL_NAME'' \<mapsto> ascii ''m'']"
              "[''GOOGLE_CREDENTIALS_PATH'' \<mapsto> ascii ''k.json'', ''GOOGLE_DRIVE_FOLDER_ID'' \<mapsto> ascii ''f'']"]
  by (simp add: load_dotenv_def truthy_def ascii_def Let_def)

section \<open>An empty listing\<close>

text \<open>
  Claim C6. When the listing of the folder has no candidate (the answer has no \<open>files\<close>
  or an empty list), the fetch returns \<open>(None, None)\<close> with the warning that no
  transcript was found, and the file system is as before: no directory is made and no
  file is opened, since neither call is among the events.
\<close>

theorem empty_listing_is_not_found:
  assumes "from_service_account_file w credentials_path"
    and "build w"
    and "files_list w (drive_query folder_id) order_by = ListResponse r"
    and "get_files r = []"
  shows "download_latest_transcript_from_drive w folder_id credentials_path target_directory fs =
           ((None, None), fs,
            [LoadCredentials credentials_path, BuildService,
             FilesList (drive_query folder_id) order_by, Log Warning NoTranscriptFound])"
  using assms
  by (simp add: download_latest_transcript_from_drive_def fetch_and_save_def select_latest_def)

theorem empty_listing_is_not_found_witness:
  "download_latest_transcript_from_drive
     (office_world\<lparr>files_list := (\<lambda>_ _. ListResponse (Some []))\<rparr>)
     (ascii ''folder'') (ascii ''key.json'') (ascii ''./downloads'')
     [ascii ''./downloads/old.md'' \<mapsto> File (ascii ''x'')] =
   ((None, None), [ascii ''./downloads/old.md'' \<mapsto> File (ascii ''x'')],
    [LoadCredentials (ascii ''key.json''), BuildService,
     FilesList (drive_query (ascii ''folder'')) order_by, Log Warning NoTranscriptFound])"
  using empty_listing_is_not_found
          [of "office_world\<lparr>files_list := (\<lambda>_ _. ListResponse (Some []))\<rparr>"
              "ascii ''key.json''" "ascii ''folder''" "Some []" "ascii ''./downloads''"
              "[ascii ''./downloads/old.md'' \<mapsto> File (ascii ''x'')]"]
  by (simp add: office_world_def get_files_def)

section \<open>Extraction from a word-processor document\<close>

lemma join_interleaves:
  "join sep ps = concat (butlast (concat (map (\<lambda>p. [p, sep]) ps)))"
  by (induction sep ps rule: join.induct) (simp_all add: butlast_append)

lemma docx_is_not_google_doc: "docx_mime \<noteq> google_doc_mime"
  by (simp add: docx_mime_def google_doc_mime_def ascii_simps)

text \<open>
  Claim C9. For a document of the word-processor type whose download succeeds and which
  python-docx can read, the extracted text is the texts of its paragraphs, in the order
  of the document, with one line feed between two neighbours: every paragraph, an empty
  one too, is followed by a line feed, except the last. The paragraphs "Hello", "",
  "World" give "Hello", two line feeds, "World".
\<close>

theorem docx_paragraphs_joined_by_newlines:
  assumes "next_chunks (media w (Get_media fid)) [] = Some data"
    and "Document w data = Some paragraphs"
  shows "download_file_content w fid docx_mime =
           (Some (join [LF] paragraphs), [Download (Get_media fid)]) \<and>
         join [LF] paragraphs = concat (butlast (concat (map (\<lambda>p. [p, [LF]]) paragraphs)))"
  using assms docx_is_not_google_doc
  by (simp add: download_file_content_def extract_content_def join_interleaves)

theorem docx_paragraphs_joined_by_newlines_witness:
  "download_file_content
     (office_world\<lparr>Document := (\<lambda>_. Some [ascii ''Hello'', [], ascii ''World''])\<rparr>)
     (ascii ''f1'') docx_mime =
   (Some (ascii ''Hello'' @ [LF, LF] @ ascii ''World''), [Download (Get_media (ascii ''f1''))])"
  using docx_paragraphs_joined_by_newlines
          [of "office_world\<lparr>Document := (\<lambda>_. Some [ascii ''Hello'', [], ascii ''World''])\<rparr>"
              "ascii ''f1''" "''Discussed X. Decided Y.''"
              "[ascii ''Hello'', [], ascii ''World'']"]
  by (simp add: office_world_def)

section \<open>Whitespace-only input of the summarizer\<close>

lemma isspace_universal_newlines:
  "\<forall>c\<in>set s. isspace c \<Longrightarrow> \<forall>c\<in>set (universal_newlines s). isspace c"
  by (induction s rule: universal_newlines.induct) (auto simp: isspace_def LF_def CR_def)

lemma strip_whitespace_only:
  assumes "\<forall>c\<in>set s. isspace c"
  shows "strip s = []"
proof -
  from assms have d: "dropWhile isspace s = []"
    by (simp only: dropWhile_eq_Nil_conv)
  show ?thesis
    unfolding strip_def d by simp
qed

text \<open>
  Claim C8. When the file given to the summarizer exists, can be read, and holds nothing
  but whitespace (or nothing at all), the summarizer returns \<open>None\<close> with the error
  that the file is empty, and that log line is its only event: the generation backend
  is not called.
\<close>

theorem whitespace_only_input_is_empty_input:
  assumes "fs file_path = Some (File stored)" and "\<forall>c\<in>set stored. isspace c"
  shows "summarize_transcript_with_ai w file_path ai_api_key model_name fs =
           (None, [Log Error SummaryFileEmpty])"
  using assms isspace_universal_newlines [of stored]
  by (simp add: summarize_transcript_with_ai_def read_text_def strip_whitespace_only)

theorem whitespace_only_input_is_empty_input_witness:
  "summarize_transcript_with_ai office_world (ascii ''t.md'') (ascii ''aikey'') (ascii ''gemini-pro'')
     [ascii ''t.md'' \<mapsto> File ([0x20, 0x0D, 0x0A, 0x09, 0x3000])] =
   (None, [Log Error SummaryFileEmpty])"
  using whitespace_only_input_is_empty_input
          [of "[ascii ''t.md'' \<mapsto> File ([0x20, 0x0D, 0x0A, 0x09, 0x3000])]" "ascii ''t.md''"
              "[0x20, 0x0D, 0x0A, 0x09, 0x3000]" office_world "ascii ''aikey''" "ascii ''gemini-pro''"]
  by (simp add: isspace_def)

section \<open>The order of the run\<close>

text \<open>
  Claim C3. In every run in which the configuration is complete and the authentication
  test of the chat backend fails, \<open>main\<close> returns \<open>False\<close>; its events are those of the
  test followed by one error line, so no call to the document store (credentials,
  service, listing, download) and no call to the generation backend is made, and the
  file system is untouched.
\<close>

theorem failed_auth_test_stops_the_run:
  assumes "load_environment_variables (dotenv_file w) (os_environ w) = Inr env_vars"
    and "\<not> fst (test_slack_connection w (item env_vars ''slack_bot_token''))"
  shows "\<not> fst (main w fs) \<and> fst (snd (main w fs)) = fs \<and>
         snd (snd (main w fs)) =
           snd (test_slack_connection w (item env_vars ''slack_bot_token'')) @
           [Log Error MainSlackTestFailed] \<and>
         (\<forall>e\<in>set (snd (snd (main w fs))). \<not> document_store_call e \<and> \<not> generation_call e)"
proof -
  obtain ok t1 where t: "test_slack_connection w (item env_vars ''slack_bot_token'') = (ok, t1)"
    by (cases "test_slack_connection w (item env_vars ''slack_bot_token'')")
  with assms(2) have "\<not> ok" by simp
  with assms(1) t have m: "main w fs = (False, fs, t1 @ [Log Error MainSlackTestFailed])"
    by (simp add: main_def)
  from test_slack_connection_events [of w "item env_vars ''slack_bot_token''"] t
  have "\<forall>e\<in>set t1. \<not> document_store_call e \<and> \<not> generation_call e"
    by simp
  with m t show ?thesis by auto
qed

theorem failed_auth_test_stops_the_run_witness:
  "main (office_world\<lparr>auth_test := (\<lambda>_. Response False)\<rparr>) Map.empty =
     (False, Map.empty,
      [AuthTest (ascii ''xoxb''), Log Error SlackTestNotOk, Log Error MainSlackTestFailed])"
proof -
  let ?w = "office_world\<lparr>auth_test := (\<lambda>_. Response False)\<rparr>"
  have c: "load_environment_variables (dotenv_file ?w) (os_environ ?w) = Inr office_env_vars"
    using office_config by (simp add: office_world_def)
  note i = office_items(3)
  have t: "test_slack_connection ?w (ascii ''xoxb'') =
             (False, [AuthTest (ascii ''xoxb''), Log Error SlackTestNotOk])"
    by (simp add: test_slack_connection_def office_world_def)
  from failed_auth_test_stops_the_run [OF c, of Map.empty] i t
  show ?thesis
    by (cases "main ?w Map.empty") (auto simp del: fun_upd_apply)
qed

section \<open>Facts about the fetch, the artifact and the run\<close>

lemma takeWhile_list_all: "list_all P xs \<Longrightarrow> takeWhile P xs = xs"
  by (induction xs) simp_all

lemma download_with_content:
  assumes "from_service_account_file w credentials_path"
    and "build w"
    and "files_list w (drive_query folder_id) order_by = ListResponse r"
    and "get_files r = latest_file # rest"
    and "makedirs w target_directory"
    and "download_file_content w (file_id latest_file) (mimeType latest_file) = (Some content, t)"
    and "open_w w (md_path w target_directory)"
    and "list_all encodable (artifact_header latest_file @ content)"
  shows "download_latest_transcript_from_drive w folder_id credentials_path target_directory fs =
           ((Some (md_path w target_directory), Some (webViewLink latest_file)),
            fs(md_path w target_directory \<mapsto> File (artifact_header latest_file @ content)),
            [LoadCredentials credentials_path, BuildService,
             FilesList (drive_query folder_id) order_by, Makedirs target_directory] @ t @
            [OpenWrite (md_path w target_directory)])"
proof -
  from assms(8) have enc: "list_all (list_all encodable) (header_chunks latest_file @ [content])"
    by (auto simp: artifact_header_def list_all_iff)
  then have "takeWhile (list_all encodable) (header_chunks latest_file @ [content]) =
             header_chunks latest_file @ [content]"
    by (rule takeWhile_list_all)
  with enc have "write_all (header_chunks latest_file @ [content]) [] =
                   (artifact_header latest_file @ content, True)"
    by (simp add: write_all_result artifact_header_def)
  with assms(7) have "save_markdown w target_directory latest_file content fs =
      ((Some (md_path w target_directory), Some (webViewLink latest_file)),
       fs(md_path w target_directory \<mapsto> File (artifact_header latest_file @ content)),
       [OpenWrite (md_path w target_directory)])"
    by (simp add: save_markdown_def Let_def)
  with assms(1-6) show ?thesis
    by (simp add: download_latest_transcript_from_drive_def fetch_and_save_def select_latest_def)
qed

lemma download_without_content:
  assumes "from_service_account_file w credentials_path"
    and "build w"
    and "files_list w (drive_query folder_id) order_by = ListResponse r"
    and "get_files r = latest_file # rest"
    and "makedirs w target_directory"
    and "download_file_content w (file_id latest_file) (mimeType latest_file) = (None, t)"
  shows "download_latest_transcript_from_drive w folder_id credentials_path target_directory fs =
           ((None, None), fs,
            [LoadCredentials credentials_path, BuildService,
             FilesList (drive_query folder_id) order_by, Makedirs target_directory] @ t @
            [Log Error ContentFetchFailed])"
  using assms
  by (simp add: download_latest_transcript_from_drive_def fetch_and_save_def select_latest_def)

lemma download_success_conditions:
  assumes "files_list w (drive_query folder_id) order_by = ListResponse r"
    and "get_files r = latest_file # rest"
    and "download_file_content w (file_id latest_file) (mimeType latest_file) = (Some content, t)"
    and "fst (download_latest_transcript_from_drive w folder_id credentials_path
                target_directory fs) = (Some p, Some u)"
  shows "from_service_account_file w credentials_path \<and> build w \<and> makedirs w target_directory \<and>
         open_w w (md_path w target_directory) \<and>
         list_all encodable (artifact_header latest_file @ content)"
  using assms
  by (auto simp: download_latest_transcript_from_drive_def fetch_and_save_def select_latest_def
      save_markdown_def write_all_result artifact_header_def list_all_iff Let_def
      split: if_splits bool.splits)

lemma universal_newlines_without_CR: "CR \<notin> set s \<Longrightarrow> universal_newlines s = s"
  by (induction s rule: universal_newlines.induct) auto

lemma universal_newlines_Cons: "c \<noteq> CR \<Longrightarrow> universal_newlines (c # s) = c # universal_newlines s"
  by (cases s) simp_all

lemma universal_newlines_append:
  "CR \<notin> set h \<Longrightarrow> universal_newlines (h @ s) = h @ universal_newlines s"
  by (induction h) (simp_all add: universal_newlines_Cons)

lemma artifact_header_parts:
  "artifact_header latest_file =
     ascii ''# '' @ [0x4F1A, 0x8B70, 0x6587, 0x5B57, 0x8D77, 0x3053, 0x3057, 0xA, 0xA] @
     ascii ''**'' @ [0x5143, 0x30D5, 0x30A1, 0x30A4, 0x30EB, 0x540D] @ ascii '':** '' @
     name latest_file @ [0xA] @
     ascii ''**'' @ [0x66F4, 0x65B0, 0x65E5, 0x6642] @ ascii '':** '' @
     modifiedTime latest_file @ [0xA] @
     ascii ''**'' @ [0x5143, 0x306E] @ ascii ''URL:** '' @ webViewLink latest_file @ [0xA, 0xA] @
     ascii ''## '' @ [0x5185, 0x5BB9, 0xA, 0xA]"
  by (simp add: artifact_header_def header_chunks_def)

lemma artifact_header_CR:
  "CR \<in> set (artifact_header latest_file) \<longleftrightarrow>
   CR \<in> set (name latest_file @ modifiedTime latest_file @ webViewLink latest_file)"
  by (auto simp: artifact_header_parts ascii_simps CR_def)

lemma body_section_append: "body_section latest_file (artifact_header latest_file @ s) = s"
  by (simp add: body_section_def)

lemma strip_eq_Nil_iff: "strip s = [] \<longleftrightarrow> (\<forall>c\<in>set s. isspace c)"
proof
  assume all: "\<forall>c\<in>set s. isspace c"
  then have d: "dropWhile isspace s = []"
    by (simp only: dropWhile_eq_Nil_conv)
  show "strip s = []"
    unfolding strip_def d by simp
next
  assume "strip s = []"
  then have inner: "\<forall>c\<in>set (dropWhile isspace s). isspace c"
    by (simp add: strip_def dropWhile_eq_Nil_conv)
  have "dropWhile isspace s = []"
  proof (rule ccontr)
    assume ne: "dropWhile isspace s \<noteq> []"
    then have "\<not> isspace (hd (dropWhile isspace s))"
      by (rule hd_dropWhile)
    moreover from ne have "hd (dropWhile isspace s) \<in> set (dropWhile isspace s)"
      by (rule hd_in_set)
    ultimately show False using inner by blast
  qed
  then show "\<forall>c\<in>set s. isspace c"
    by (simp only: dropWhile_eq_Nil_conv)
qed

lemma office_md_path:
  "md_path (office_world\<lparr>media := (\<lambda>_. d)\<rparr>) (ascii ''./downloads'') =
     ascii ''./downloads/transcript_20240502_101500.md''"
  by (simp add: md_path_def path_join_def office_world_def ascii_simps)

lemma meeting_header_encodable: "list_all encodable (artifact_header meeting_file)"
  by (simp add: artifact_header_parts meeting_file_def text_plain_def encodable_def ascii_simps)

lemma office_plain_text_content:
  assumes "next_chunks d [] = Some data"
    and "decode_utf8 data = Some content"
  shows "download_file_content (office_world\<lparr>media := (\<lambda>_. d)\<rparr>) (file_id meeting_file)
           (mimeType meeting_file) = (Some content, [Download (Get_media (ascii ''f1''))])"
  using assms
  by (simp add: download_file_content_def extract_content_def meeting_file_def office_world_def
      text_plain_def google_doc_mime_def docx_mime_def ascii_simps)

lemma office_download_plain_text:
  assumes "next_chunks d [] = Some data"
    and "decode_utf8 data = Some content"
    and "list_all encodable content"
  shows "download_latest_transcript_from_drive (office_world\<lparr>media := (\<lambda>_. d)\<rparr>)
           (ascii ''folder'') (ascii ''key.json'') (ascii ''./downloads'') Map.empty =
         ((Some (ascii ''./downloads/transcript_20240502_101500.md''),
           Some (ascii ''https://docs.google.com/document/d/f1'')),
          [ascii ''./downloads/transcript_20240502_101500.md'' \<mapsto>
             File (artifact_header meeting_file @ content)],
          [LoadCredentials (ascii ''key.json''), BuildService,
           FilesList (drive_query (ascii ''folder'')) order_by,
           Makedirs (ascii ''./downloads''), Download (Get_media (ascii ''f1'')),
           OpenWrite (ascii ''./downloads/transcript_20240502_101500.md'')])"
proof -
  let ?w = "office_world\<lparr>media := (\<lambda>_. d)\<rparr>"
  have "from_service_account_file ?w (ascii ''key.json'')" "build ?w"
    "files_list ?w (drive_query (ascii ''folder'')) order_by = ListResponse (Some [meeting_file])"
    "get_files (Some [meeting_file]) = meeting_file # []" "makedirs ?w (ascii ''./downloads'')"
    "download_file_content ?w (file_id meeting_file) (mimeType meeting_file) =
       (Some content, [Download (Get_media (ascii ''f1''))])"
    "open_w ?w (md_path ?w (ascii ''./downloads''))"
    "list_all encodable (artifact_header meeting_file @ content)"
    using office_plain_text_content [OF assms(1,2)] meeting_header_encodable assms(3)
    by (simp_all add: office_world_def get_files_def)
  from download_with_content [OF this, of Map.empty] show ?thesis
    by (simp add: office_md_path meeting_file_def)
qed

lemma office_world_media_fields:
  "dotenv_file (office_world\<lparr>media := (\<lambda>_. d)\<rparr>) = dotenv_file office_world"
  "os_environ (office_world\<lparr>media := (\<lambda>_. d)\<rparr>) = os_environ office_world"
  "auth_test (office_world\<lparr>media := (\<lambda>_. d)\<rparr>) = (\<lambda>_. Response True)"
  "chat_postMessage (office_world\<lparr>media := (\<lambda>_. d)\<rparr>) = (\<lambda>_ _ _ _. Response True)"
  "generate_content (office_world\<lparr>media := (\<lambda>_. d)\<rparr>) = (\<lambda>_ _ _. Some (ascii ''## Summary''))"
  by (simp_all add: office_world_def)

lemma summary_is_stripped: "strip (ascii ''## Summary'') = ascii ''## Summary''"
  by (simp add: strip_def isspace_def ascii_def)

lemma office_main_reaches_generation:
  assumes "next_chunks d [] = Some data"
    and "decode_utf8 data = Some content"
    and "list_all encodable content"
  shows "fst (main (office_world\<lparr>media := (\<lambda>_. d)\<rparr>) Map.empty) \<and>
         list_ex generation_call (snd (snd (main (office_world\<lparr>media := (\<lambda>_. d)\<rparr>) Map.empty)))"
proof -
  let ?w = "office_world\<lparr>media := (\<lambda>_. d)\<rparr>"
  let ?p = "ascii ''./downloads/transcript_20240502_101500.md''"
  let ?fs = "[?p \<mapsto> File (artifact_header meeting_file @ content)]"
  have cfg: "load_environment_variables (dotenv_file ?w) (os_environ ?w) = Inr office_env_vars"
    using office_config by (simp add: office_world_media_fields)
  have tsc: "test_slack_connection ?w (ascii ''xoxb'') = (True, [AuthTest (ascii ''xoxb'')])"
    by (simp add: test_slack_connection_def office_world_media_fields)
  note dl = office_download_plain_text [OF assms]
  have "\<not> isspace (hd (artifact_header meeting_file @ content))"
    by (simp add: artifact_header_parts ascii_simps isspace_def)
  then have "\<not> isspace (hd (universal_newlines (artifact_header meeting_file @ content)))"
    by (simp add: artifact_header_parts ascii_simps CR_def)
  moreover have "universal_newlines (artifact_header meeting_file @ content) \<noteq> []"
    by (simp add: artifact_header_parts ascii_simps CR_def)
  ultimately have ne: "strip (universal_newlines (artifact_header meeting_file @ content)) \<noteq> []"
    unfolding strip_eq_Nil_iff using hd_in_set by blast
  have sm: "summarize_transcript_with_ai ?w ?p (ascii ''aikey'') (ascii ''gemini-pro'') ?fs =
      (Some (ascii ''## Summary''),
       [GenerateContent (ascii ''aikey'') (ascii ''gemini-pro'')
          (create_summary_prompt (universal_newlines (artifact_header meeting_file @ content)))])"
    using ne summary_is_stripped
    by (simp add: summarize_transcript_with_ai_def read_text_def office_world_media_fields
        ascii_def)
  have post: "fst (post_summary_to_slack ?w (ascii ''xoxb'') (ascii ''C42'') (ascii ''## Summary'')
                (ascii ''https://docs.google.com/document/d/f1''))"
    by (simp add: post_summary_to_slack_def create_slack_message_def office_world_media_fields)
  show ?thesis
    using cfg tsc dl sm post
    by (auto simp: main_def office_items truthy_def ascii_simps split: prod.splits)
qed

lemma insert_desc_front:
  "\<forall>g\<in>set gs. at (modifiedTime g) \<le> at (modifiedTime f) \<Longrightarrow> insert_desc at f gs = f # gs"
  by (cases gs) simp_all

lemma sort_desc_newest_first: "newest_first at files \<Longrightarrow> sort_desc at files = files"
  by (induction files) (simp_all add: newest_first_def sort_desc_def insert_desc_front)

lemma main_after_failed_auth_test:
  assumes "load_environment_variables (dotenv_file w) (os_environ w) = Inr env_vars"
    and "\<not> fst (test_slack_connection w (item env_vars ''slack_bot_token''))"
  shows "main w fs =
           (False, fs,
            snd (test_slack_connection w (item env_vars ''slack_bot_token'')) @
            [Log Error MainSlackTestFailed])"
  using assms
  by (cases "test_slack_connection w (item env_vars ''slack_bot_token'')")
     (simp add: main_def)

lemma test_slack_connection_starts_with_auth_test:
  "\<exists>rest. snd (test_slack_connection w token) = AuthTest token # rest"
  by (simp add: test_slack_connection_def split: slack_result.splits)

section \<open>Empty content\<close>

text \<open>
  Claim C1, as amended. The fetch fails for want of content only when the extraction
  returns \<open>None\<close> (a type that is not supported, or an error while downloading, parsing
  or decoding): it then returns \<open>(None, None)\<close>, logs that the content could not be
  fetched, and writes no artifact. When the extraction returns a string, the fetch does
  not look at it: an empty or whitespace-only string is no failure. Provided the file
  can be opened and its text encoded, the artifact is written with the header and that
  string as its body, and the path and the URL are returned.
\<close>

theorem fetch_fails_for_missing_content_only:
  assumes "from_service_account_file w credentials_path"
    and "build w"
    and "files_list w (drive_query folder_id) order_by = ListResponse r"
    and "get_files r = latest_file # rest"
    and "makedirs w target_directory"
  shows "(\<forall>t. download_file_content w (file_id latest_file) (mimeType latest_file) = (None, t) \<longrightarrow>
            download_latest_transcript_from_drive w folder_id credentials_path target_directory fs =
              ((None, None), fs,
               [LoadCredentials credentials_path, BuildService,
                FilesList (drive_query folder_id) order_by, Makedirs target_directory] @ t @
               [Log Error ContentFetchFailed])) \<and>
         (\<forall>content t.
            download_file_content w (file_id latest_file) (mimeType latest_file) = (Some content, t) \<and>
            open_w w (md_path w target_directory) \<and>
            list_all encodable (artifact_header latest_file @ content) \<longrightarrow>
            download_latest_transcript_from_drive w folder_id credentials_path target_directory fs =
              ((Some (md_path w target_directory), Some (webViewLink latest_file)),
               fs(md_path w target_directory \<mapsto> File (artifact_header latest_file @ content)),
               [LoadCredentials credentials_path, BuildService,
                FilesList (drive_query folder_id) order_by, Makedirs target_directory] @ t @
               [OpenWrite (md_path w target_directory)]))"
  using download_without_content [OF assms] download_with_content [OF assms]
  by blast

theorem fetch_fails_for_missing_content_only_witness:
  "download_latest_transcript_from_drive (office_world\<lparr>media := (\<lambda>_. Last ''  '')\<rparr>)
     (ascii ''folder'') (ascii ''key.json'') (ascii ''./downloads'') Map.empty =
   ((Some (ascii ''./downloads/transcript_20240502_101500.md''),
     Some (ascii ''https://docs.google.com/document/d/f1'')),
    [ascii ''./downloads/transcript_20240502_101500.md'' \<mapsto>
       File (artifact_header meeting_file @ ascii ''  '')],
    [LoadCredentials (ascii ''key.json''), BuildService,
     FilesList (drive_query (ascii ''folder'')) order_by,
     Makedirs (ascii ''./downloads''), Download (Get_media (ascii ''f1'')),
     OpenWrite (ascii ''./downloads/transcript_20240502_101500.md'')])"
proof -
  let ?w = "office_world\<lparr>media := (\<lambda>_. Last ''  '')\<rparr>"
  have c: "download_file_content ?w (file_id meeting_file) (mimeType meeting_file) =
             (Some (ascii ''  ''), [Download (Get_media (ascii ''f1''))])"
    by (rule office_plain_text_content [where data = "''  ''"])
       (simp_all add: decode_utf8_def utf8_head_def ascii_simps)
  have e: "list_all encodable (artifact_header meeting_file @ ascii ''  '')"
    using meeting_header_encodable by (simp add: encodable_def ascii_simps)
  have "from_service_account_file ?w (ascii ''key.json'')" "build ?w"
    "files_list ?w (drive_query (ascii ''folder'')) order_by = ListResponse (Some [meeting_file])"
    "get_files (Some [meeting_file]) = meeting_file # []" "makedirs ?w (ascii ''./downloads'')"
    by (simp_all add: office_world_def get_files_def)
  moreover have "open_w ?w (md_path ?w (ascii ''./downloads''))"
    by (simp add: office_world_def)
  ultimately have "download_latest_transcript_from_drive ?w (ascii ''folder'') (ascii ''key.json'')
          (ascii ''./downloads'') Map.empty =
        ((Some (md_path ?w (ascii ''./downloads'')), Some (webViewLink meeting_file)),
         [md_path ?w (ascii ''./downloads'') \<mapsto> File (artifact_header meeting_file @ ascii ''  '')],
         [LoadCredentials (ascii ''key.json''), BuildService,
          FilesList (drive_query (ascii ''folder'')) order_by, Makedirs (ascii ''./downloads'')] @
         [Download (Get_media (ascii ''f1''))] @ [OpenWrite (md_path ?w (ascii ''./downloads''))])"
    using fetch_fails_for_missing_content_only
            [of ?w "ascii ''key.json''" "ascii ''folder''" "Some [meeting_file]" meeting_file "[]"
                "ascii ''./downloads''" Map.empty] c e
    by blast
  then show ?thesis
    by (simp add: office_md_path meeting_file_def)
qed

text \<open>
  The statement as first written, that an empty extracted text makes the fetch fail
  with nothing persisted and nothing summarized, does not hold: for a plain-text file of
  zero bytes the fetch returns the path and the URL, the artifact holds the header
  alone, and the run goes on to call the generation backend and ends in success.
\<close>

theorem empty_content_is_failure_counterexample:
  "fst (download_file_content (office_world\<lparr>media := (\<lambda>_. Last [])\<rparr>) (ascii ''f1'') text_plain)
     = Some [] \<and>
   fst (download_latest_transcript_from_drive (office_world\<lparr>media := (\<lambda>_. Last [])\<rparr>)
          (ascii ''folder'') (ascii ''key.json'') (ascii ''./downloads'') Map.empty) =
     (Some (ascii ''./downloads/transcript_20240502_101500.md''),
      Some (ascii ''https://docs.google.com/document/d/f1'')) \<and>
   fst (snd (download_latest_transcript_from_drive (office_world\<lparr>media := (\<lambda>_. Last [])\<rparr>)
          (ascii ''folder'') (ascii ''key.json'') (ascii ''./downloads'') Map.empty))
     (ascii ''./downloads/transcript_20240502_101500.md'') =
     Some (File (artifact_header meeting_file)) \<and>
   fst (main (office_world\<lparr>media := (\<lambda>_. Last [])\<rparr>) Map.empty) \<and>
   list_ex generation_call (snd (snd (main (office_world\<lparr>media := (\<lambda>_. Last [])\<rparr>) Map.empty)))"
proof -
  have a: "next_chunks (Last []) [] = Some []"
    "decode_utf8 [] = Some []" "list_all encodable []"
    by (simp_all add: decode_utf8_def)
  from office_plain_text_content [OF a(1,2)] office_download_plain_text [OF a]
    office_main_reaches_generation [OF a]
  show ?thesis
    by (simp add: meeting_file_def)
qed

section \<open>The artifact\<close>

text \<open>
  Claim C5, as amended. For every successful fetch, the text written to the artifact is
  the header, which holds the original name, the time of last change and the source URL
  verbatim, followed by the extracted text, complete and unchanged. Reading the
  artifact back in text mode gives that text with every carriage return, alone or
  before a line feed, replaced by one line feed; so the body read back is identical to
  the extracted text whenever the name, the time, the URL and the extracted text hold no
  carriage return.
\<close>

theorem artifact_holds_header_and_body:
  assumes "files_list w (drive_query folder_id) order_by = ListResponse r"
    and "get_files r = latest_file # rest"
    and "download_file_content w (file_id latest_file) (mimeType latest_file) = (Some content, t)"
    and "download_latest_transcript_from_drive w folder_id credentials_path target_directory fs =
           ((Some p, Some u), fs', events)"
  shows "p = md_path w target_directory \<and> u = webViewLink latest_file \<and>
         fs' p = Some (File (artifact_header latest_file @ content)) \<and>
         artifact_header latest_file =
           ascii ''# '' @ [0x4F1A, 0x8B70, 0x6587, 0x5B57, 0x8D77, 0x3053, 0x3057, 0xA, 0xA] @
           ascii ''**'' @ [0x5143, 0x30D5, 0x30A1, 0x30A4, 0x30EB, 0x540D] @ ascii '':** '' @
           name latest_file @ [0xA] @
           ascii ''**'' @ [0x66F4, 0x65B0, 0x65E5, 0x6642] @ ascii '':** '' @
           modifiedTime latest_file @ [0xA] @
           ascii ''**'' @ [0x5143, 0x306E] @ ascii ''URL:** '' @ webViewLink latest_file @ [0xA, 0xA] @
           ascii ''## '' @ [0x5185, 0x5BB9, 0xA, 0xA] \<and>
         body_section latest_file (artifact_header latest_file @ content) = content \<and>
         read_text fs' p = Some (universal_newlines (artifact_header latest_file @ content)) \<and>
         (CR \<notin> set (name latest_file @ modifiedTime latest_file @ webViewLink latest_file @ content)
          \<longrightarrow> read_text fs' p = Some (artifact_header latest_file @ content) \<and>
              map_option (body_section latest_file) (read_text fs' p) = Some content)"
proof -
  from assms(4) have "fst (download_latest_transcript_from_drive w folder_id credentials_path
                             target_directory fs) = (Some p, Some u)"
    by simp
  from download_success_conditions [OF assms(1-3) this]
  have c: "from_service_account_file w credentials_path" "build w" "makedirs w target_directory"
    "open_w w (md_path w target_directory)"
    "list_all encodable (artifact_header latest_file @ content)"
    by simp_all
  from download_with_content [OF c(1,2) assms(1,2) c(3) assms(3) c(4,5), of fs] assms(4)
  have r: "p = md_path w target_directory" "u = webViewLink latest_file"
    "fs' = fs(md_path w target_directory \<mapsto> File (artifact_header latest_file @ content))"
    by simp_all
  then have stored: "fs' p = Some (File (artifact_header latest_file @ content))"
    by simp
  then have rd: "read_text fs' p = Some (universal_newlines (artifact_header latest_file @ content))"
    by (simp add: read_text_def)
  have "universal_newlines (artifact_header latest_file @ content) =
          artifact_header latest_file @ content"
    if "CR \<notin> set (name latest_file @ modifiedTime latest_file @ webViewLink latest_file @ content)"
  proof -
    from that have "CR \<notin> set (artifact_header latest_file @ content)"
      using artifact_header_CR [of latest_file] by simp
    then show ?thesis by (rule universal_newlines_without_CR)
  qed
  with r(1,2) stored rd show ?thesis
    by (intro conjI impI artifact_header_parts) (simp_all add: body_section_append)
qed

theorem artifact_holds_header_and_body_witness:
  "read_text
     (fst (snd (download_latest_transcript_from_drive office_world (ascii ''folder'')
                  (ascii ''key.json'') (ascii ''./downloads'') Map.empty)))
     (ascii ''./downloads/transcript_20240502_101500.md'') =
     Some (artifact_header meeting_file @ ascii ''Discussed X. Decided Y.'') \<and>
   map_option (body_section meeting_file)
     (read_text
        (fst (snd (download_latest_transcript_from_drive office_world (ascii ''folder'')
                     (ascii ''key.json'') (ascii ''./downloads'') Map.empty)))
        (ascii ''./downloads/transcript_20240502_101500.md'')) =
     Some (ascii ''Discussed X. Decided Y.'')"
proof -
  have l: "files_list office_world (drive_query (ascii ''folder'')) order_by =
             ListResponse (Some [meeting_file])"
    "get_files (Some [meeting_file]) = meeting_file # []"
    by (simp_all add: office_world_def get_files_def)
  have c: "download_file_content office_world (file_id meeting_file) (mimeType meeting_file) =
             (Some (ascii ''Discussed X. Decided Y.''), [Download (Get_media (ascii ''f1''))])"
    by (simp add: download_file_content_def extract_content_def meeting_file_def office_world_def
        text_plain_def google_doc_mime_def docx_mime_def decode_utf8_def utf8_head_def ascii_simps)
  have n: "CR \<notin> set (name meeting_file @ modifiedTime meeting_file @ webViewLink meeting_file @
                        ascii ''Discussed X. Decided Y.'')"
    by (simp add: meeting_file_def text_plain_def ascii_simps CR_def)
  from artifact_holds_header_and_body [OF l c office_download] n
  have rt: "read_text
          [ascii ''./downloads/transcript_20240502_101500.md'' \<mapsto>
             File (artifact_header meeting_file @ ascii ''Discussed X. Decided Y.'')]
          (ascii ''./downloads/transcript_20240502_101500.md'') =
          Some (artifact_header meeting_file @ ascii ''Discussed X. Decided Y.'') \<and>
        map_option (body_section meeting_file)
          (read_text
             [ascii ''./downloads/transcript_20240502_101500.md'' \<mapsto>
                File (artifact_header meeting_file @ ascii ''Discussed X. Decided Y.'')]
             (ascii ''./downloads/transcript_20240502_101500.md'')) =
          Some (ascii ''Discussed X. Decided Y.'')"
    by blast
  have fs: "fst (snd (download_latest_transcript_from_drive office_world (ascii ''folder'')
                  (ascii ''key.json'') (ascii ''./downloads'') Map.empty)) =
            [ascii ''./downloads/transcript_20240502_101500.md'' \<mapsto>
               File (artifact_header meeting_file @ ascii ''Discussed X. Decided Y.'')]"
    by (simp only: office_download fst_conv snd_conv)
  show ?thesis
    unfolding fs by (rule rt)
qed

text \<open>
  Without the condition on carriage returns the round trip is not lossless: a
  plain-text file with the bytes \<open>a\<close>, CR, LF, \<open>b\<close> is fetched with success, and the body
  read back is \<open>a\<close>, LF, \<open>b\<close>.
\<close>

theorem artifact_round_trip_counterexample:
  "fst (download_file_content
          (office_world\<lparr>media := (\<lambda>_. Last [CHR ''a'', CHR 0x0D, CHR 0x0A, CHR ''b''])\<rparr>)
          (ascii ''f1'') text_plain) = Some [0x61, 0x0D, 0x0A, 0x62] \<and>
   fst (download_latest_transcript_from_drive
          (office_world\<lparr>media := (\<lambda>_. Last [CHR ''a'', CHR 0x0D, CHR 0x0A, CHR ''b''])\<rparr>)
          (ascii ''folder'') (ascii ''key.json'') (ascii ''./downloads'') Map.empty) =
     (Some (ascii ''./downloads/transcript_20240502_101500.md''),
      Some (ascii ''https://docs.google.com/document/d/f1'')) \<and>
   map_option (body_section meeting_file)
     (read_text
        (fst (snd (download_latest_transcript_from_drive
           (office_world\<lparr>media := (\<lambda>_. Last [CHR ''a'', CHR 0x0D, CHR 0x0A, CHR ''b''])\<rparr>)
           (ascii ''folder'') (ascii ''key.json'') (ascii ''./downloads'') Map.empty)))
        (ascii ''./downloads/transcript_20240502_101500.md'')) =
     Some [0x61, 0x0A, 0x62]"
proof -
  have a: "next_chunks (Last [CHR ''a'', CHR 0x0D, CHR 0x0A, CHR ''b'']) [] =
             Some [CHR ''a'', CHR 0x0D, CHR 0x0A, CHR ''b'']"
    "decode_utf8 [CHR ''a'', CHR 0x0D, CHR 0x0A, CHR ''b''] = Some [0x61, 0x0D, 0x0A, 0x62]"
    "list_all encodable [0x61, 0x0D, 0x0A, 0x62]"
    by (simp_all add: decode_utf8_def utf8_head_def encodable_def)
  have "CR \<notin> set (artifact_header meeting_file)"
    by (simp add: artifact_header_CR) (simp add: meeting_file_def text_plain_def ascii_simps CR_def)
  then have "universal_newlines (artifact_header meeting_file @ [0x61, 0x0D, 0x0A, 0x62]) =
        artifact_header meeting_file @ [0x61, 0x0A, 0x62]"
    by (simp add: universal_newlines_append CR_def LF_def)
  with office_plain_text_content [OF a(1,2)] office_download_plain_text [OF a]
  show ?thesis
    by (simp add: read_text_def body_section_append meeting_file_def)
qed

section \<open>Publishing\<close>

text \<open>
  Claim C2, as amended. \<open>post_summary_to_slack\<close> makes no authentication check of its
  own: in every invocation it builds the message and posts it, and it returns success
  exactly when the post is acknowledged. The authentication check is the separate
  operation \<open>test_slack_connection\<close>, which \<open>main\<close> runs before anything else is
  fetched; when that check fails, the run ends in failure before any message is built
  or posted.
\<close>

theorem publish_makes_no_authentication_check:
  "\<not> list_ex auth_call (snd (post_summary_to_slack w slack_token channel_id summary_text google_doc_url)) \<and>
   take 2 (snd (post_summary_to_slack w slack_token channel_id summary_text google_doc_url)) =
     [Clock,
      ChatPostMessage slack_token channel_id notification_text
        (fst (create_slack_message w summary_text google_doc_url))] \<and>
   (fst (post_summary_to_slack w slack_token channel_id summary_text google_doc_url) \<longleftrightarrow>
      chat_postMessage w slack_token channel_id notification_text
        (fst (create_slack_message w summary_text google_doc_url)) = Response True) \<and>
   (load_environment_variables (dotenv_file w) (os_environ w) = Inr env_vars \<and>
    \<not> fst (test_slack_connection w (item env_vars ''slack_bot_token'')) \<longrightarrow>
      \<not> fst (main w fs) \<and>
      list_ex auth_call (snd (snd (main w fs))) \<and>
      \<not> list_ex message_built (snd (snd (main w fs))) \<and>
      \<not> list_ex post_call (snd (snd (main w fs))))"
proof -
  have publish:
    "\<not> list_ex auth_call (snd (post_summary_to_slack w slack_token channel_id summary_text google_doc_url)) \<and>
     take 2 (snd (post_summary_to_slack w slack_token channel_id summary_text google_doc_url)) =
       [Clock,
        ChatPostMessage slack_token channel_id notification_text
          (fst (create_slack_message w summary_text google_doc_url))] \<and>
     (fst (post_summary_to_slack w slack_token channel_id summary_text google_doc_url) \<longleftrightarrow>
        chat_postMessage w slack_token channel_id notification_text
          (fst (create_slack_message w summary_text google_doc_url)) = Response True)"
    by (simp add: post_summary_to_slack_def create_slack_message_def Let_def
        split: slack_result.splits)
  have run: "\<not> fst (main w fs) \<and> list_ex auth_call (snd (snd (main w fs))) \<and>
             \<not> list_ex message_built (snd (snd (main w fs))) \<and>
             \<not> list_ex post_call (snd (snd (main w fs)))"
    if cfg: "load_environment_variables (dotenv_file w) (os_environ w) = Inr env_vars"
      and failed: "\<not> fst (test_slack_connection w (item env_vars ''slack_bot_token''))"
  proof -
    from test_slack_connection_starts_with_auth_test
    obtain rest where "snd (test_slack_connection w (item env_vars ''slack_bot_token'')) =
        AuthTest (item env_vars ''slack_bot_token'') # rest"
      by blast
    moreover from test_slack_connection_events [of w "item env_vars ''slack_bot_token''"]
    have "\<forall>e\<in>set (snd (test_slack_connection w (item env_vars ''slack_bot_token''))).
            \<not> post_call e \<and> \<not> message_built e"
      by blast
    ultimately show ?thesis
      using main_after_failed_auth_test [OF cfg failed, of fs]
      by (simp add: list_ex_iff)
  qed
  from publish run show ?thesis
    by blast
qed

theorem publish_makes_no_authentication_check_witness:
  "fst (post_summary_to_slack (office_world\<lparr>auth_test := (\<lambda>_. SlackApiError)\<rparr>)
          (ascii ''xoxb'') (ascii ''C42'') (ascii ''## Summary'')
          (ascii ''https://docs.google.com/document/d/f1'')) \<and>
   \<not> fst (main (office_world\<lparr>auth_test := (\<lambda>_. SlackApiError)\<rparr>) Map.empty) \<and>
   list_ex auth_call (snd (snd (main (office_world\<lparr>auth_test := (\<lambda>_. SlackApiError)\<rparr>) Map.empty))) \<and>
   \<not> list_ex post_call (snd (snd (main (office_world\<lparr>auth_test := (\<lambda>_. SlackApiError)\<rparr>) Map.empty)))"
proof -
  let ?w = "office_world\<lparr>auth_test := (\<lambda>_. SlackApiError)\<rparr>"
  have cfg: "load_environment_variables (dotenv_file ?w) (os_environ ?w) = Inr office_env_vars"
    using office_config by (simp add: office_world_def)
  have failed: "\<not> fst (test_slack_connection ?w (item office_env_vars ''slack_bot_token''))"
    by (simp add: test_slack_connection_def office_world_def)
  have ack: "chat_postMessage ?w (ascii ''xoxb'') (ascii ''C42'') notification_text
               (fst (create_slack_message ?w (ascii ''## Summary'')
                  (ascii ''https://docs.google.com/document/d/f1''))) = Response True"
    by (simp add: office_world_def)
  from publish_makes_no_authentication_check
         [of ?w "ascii ''xoxb''" "ascii ''C42''" "ascii ''## Summary''"
             "ascii ''https://docs.google.com/document/d/f1''" office_env_vars Map.empty]
       cfg failed ack
  show ?thesis
    by blast
qed

text \<open>
  The statement as first written, that publishing itself checks the authentication first
  and fails when the check fails, does not hold: with a backend whose authentication
  test raises an API error and whose post is accepted, publishing succeeds, and no
  authentication test is among its events.
\<close>

theorem publish_checks_authentication_first_counterexample:
  "\<not> fst (test_slack_connection (office_world\<lparr>auth_test := (\<lambda>_. SlackApiError)\<rparr>) (ascii ''xoxb'')) \<and>
   fst (post_summary_to_slack (office_world\<lparr>auth_test := (\<lambda>_. SlackApiError)\<rparr>)
          (ascii ''xoxb'') (ascii ''C42'') (ascii ''## Summary'')
          (ascii ''https://docs.google.com/document/d/f1'')) \<and>
   \<not> list_ex auth_call
        (snd (post_summary_to_slack (office_world\<lparr>auth_test := (\<lambda>_. SlackApiError)\<rparr>)
                (ascii ''xoxb'') (ascii ''C42'') (ascii ''## Summary'')
                (ascii ''https://docs.google.com/document/d/f1''))) \<and>
   list_ex post_call
        (snd (post_summary_to_slack (office_world\<lparr>auth_test := (\<lambda>_. SlackApiError)\<rparr>)
                (ascii ''xoxb'') (ascii ''C42'') (ascii ''## Summary'')
                (ascii ''https://docs.google.com/document/d/f1'')))"
  by (simp add: test_slack_connection_def post_summary_to_slack_def create_slack_message_def
      office_world_def Let_def)

section \<open>The latest transcript\<close>

lemma office_listing_download:
  assumes "fl (drive_query (ascii ''folder'')) order_by = ListResponse (Some (f # rest))"
    and "mimeType f = text_plain"
    and "list_all encodable (artifact_header f)"
  shows "download_latest_transcript_from_drive (office_world\<lparr>files_list := fl\<rparr>)
           (ascii ''folder'') (ascii ''key.json'') (ascii ''./downloads'') Map.empty =
         ((Some (ascii ''./downloads/transcript_20240502_101500.md''), Some (webViewLink f)),
          [ascii ''./downloads/transcript_20240502_101500.md'' \<mapsto>
             File (artifact_header f @ ascii ''Discussed X. Decided Y.'')],
          [LoadCredentials (ascii ''key.json''), BuildService,
           FilesList (drive_query (ascii ''folder'')) order_by,
           Makedirs (ascii ''./downloads''), Download (Get_media (file_id f)),
           OpenWrite (ascii ''./downloads/transcript_20240502_101500.md'')])"
proof -
  let ?w = "office_world\<lparr>files_list := fl\<rparr>"
  have p: "md_path ?w (ascii ''./downloads'') = ascii ''./downloads/transcript_20240502_101500.md''"
    by (simp add: md_path_def path_join_def office_world_def ascii_simps)
  have t: "text_plain \<noteq> google_doc_mime" "text_plain \<noteq> docx_mime"
    by (simp_all add: text_plain_def google_doc_mime_def docx_mime_def ascii_simps)
  have d: "decode_utf8 ''Discussed X. Decided Y.'' = Some (ascii ''Discussed X. Decided Y.'')"
    by (simp add: decode_utf8_def utf8_head_def ascii_simps)
  have "from_service_account_file ?w (ascii ''key.json'')" "build ?w"
    "files_list ?w (drive_query (ascii ''folder'')) order_by = ListResponse (Some (f # rest))"
    "get_files (Some (f # rest)) = f # rest" "makedirs ?w (ascii ''./downloads'')"
    "download_file_content ?w (file_id f) (mimeType f) =
       (Some (ascii ''Discussed X. Decided Y.''), [Download (Get_media (file_id f))])"
    "open_w ?w (md_path ?w (ascii ''./downloads''))"
    "list_all encodable (artifact_header f @ ascii ''Discussed X. Decided Y.'')"
    using assms t d
    by (simp_all add: office_world_def get_files_def download_file_content_def
        extract_content_def encodable_def ascii_simps)
  from download_with_content [OF this, of Map.empty] show ?thesis
    by (simp add: p)
qed

lemma example_headers_encodable:
  "list_all encodable (artifact_header older_file)"
  by (simp add: artifact_header_parts older_file_def meeting_file_def text_plain_def
      encodable_def ascii_simps)

lemma example_stamps:
  "modifiedTime twin_file = modifiedTime meeting_file"
  "modifiedTime older_file < modifiedTime meeting_file"
  by (simp_all add: twin_file_def older_file_def meeting_file_def ascii_simps)

text \<open>
  Claim C4, as amended. The fetch asks the document store for the matches in the order
  \<open>modifiedTime desc\<close> and takes the first entry of the answer; it does not sort the
  answer itself. For every answer with at least one entry, the content that is
  downloaded and the name, time and URL that are written and returned are those of the
  first entry. When the answer is in the requested order, that entry is one whose time of
  last change is maximal; among several entries with that time it is the first in the
  order of the answer; and it is the entry that sorting the answer by time, latest first
  and without reordering equal times, would put first.
\<close>

theorem fetch_takes_first_of_requested_order:
  assumes "from_service_account_file w credentials_path"
    and "build w"
    and "files_list w (drive_query folder_id) (ascii ''modifiedTime desc'') = ListResponse r"
    and "get_files r = latest_file # rest"
  shows "take 3 (snd (snd (download_latest_transcript_from_drive w folder_id credentials_path
                             target_directory fs))) =
           [LoadCredentials credentials_path, BuildService,
            FilesList (drive_query folder_id) (ascii ''modifiedTime desc'')] \<and>
         (makedirs w target_directory \<longrightarrow>
            (\<exists>later. snd (snd (download_latest_transcript_from_drive w folder_id credentials_path
                                  target_directory fs)) =
               [LoadCredentials credentials_path, BuildService,
                FilesList (drive_query folder_id) (ascii ''modifiedTime desc''),
                Makedirs target_directory] @
               snd (download_file_content w (file_id latest_file) (mimeType latest_file)) @ later)) \<and>
         (\<forall>p u. fst (download_latest_transcript_from_drive w folder_id credentials_path
                       target_directory fs) = (Some p, Some u) \<longrightarrow>
            u = webViewLink latest_file \<and>
            (\<exists>content.
               fst (download_file_content w (file_id latest_file) (mimeType latest_file)) =
                 Some content \<and>
               fst (snd (download_latest_transcript_from_drive w folder_id credentials_path
                           target_directory fs)) p =
                 Some (File (artifact_header latest_file @ content)))) \<and>
         (newest_first at (latest_file # rest) \<longrightarrow>
            (\<forall>g\<in>set (latest_file # rest). at (modifiedTime g) \<le> at (modifiedTime latest_file)) \<and>
            find (\<lambda>g. at (modifiedTime g) = at (modifiedTime latest_file)) (latest_file # rest) =
              Some latest_file \<and>
            spec_select_latest at (latest_file # rest) = Some latest_file)"
proof -
  let ?D = "download_latest_transcript_from_drive w folder_id credentials_path target_directory fs"
  have l: "files_list w (drive_query folder_id) order_by = ListResponse r"
    using assms(3) by (simp add: order_by_def)
  obtain c tc where dfc:
    "download_file_content w (file_id latest_file) (mimeType latest_file) = (c, tc)"
    by (cases "download_file_content w (file_id latest_file) (mimeType latest_file)")
  obtain res fs' t' where sm:
    "save_markdown w target_directory latest_file (the c) fs = (res, fs', t')"
    by (cases "save_markdown w target_directory latest_file (the c) fs")
  have ev: "snd (snd ?D) =
      [LoadCredentials credentials_path, BuildService,
       FilesList (drive_query folder_id) (ascii ''modifiedTime desc'')] @
      (if \<not> makedirs w target_directory
       then [Makedirs target_directory, Log Error DriveDownloadException]
       else Makedirs target_directory # tc @
            (case c of None \<Rightarrow> [Log Error ContentFetchFailed] | Some _ \<Rightarrow> t'))"
    using assms(1,2,4) l dfc sm
    by (cases c)
       (auto simp: download_latest_transcript_from_drive_def fetch_and_save_def select_latest_def
          order_by_def)
  have first: "take 3 (snd (snd ?D)) =
      [LoadCredentials credentials_path, BuildService,
       FilesList (drive_query folder_id) (ascii ''modifiedTime desc'')]"
    by (simp add: ev)
  have request: "\<exists>later. snd (snd ?D) =
      [LoadCredentials credentials_path, BuildService,
       FilesList (drive_query folder_id) (ascii ''modifiedTime desc''),
       Makedirs target_directory] @
      snd (download_file_content w (file_id latest_file) (mimeType latest_file)) @ later"
    if "makedirs w target_directory"
    using that by (simp add: ev dfc)
  have taken: "u = webViewLink latest_file \<and>
      (\<exists>content.
         fst (download_file_content w (file_id latest_file) (mimeType latest_file)) = Some content \<and>
         fst (snd ?D) p = Some (File (artifact_header latest_file @ content)))"
    if ok: "fst ?D = (Some p, Some u)" for p u
  proof -
    from ok assms(1,2,4) l dfc obtain content where c: "c = Some content"
      by (cases c)
         (auto simp: download_latest_transcript_from_drive_def fetch_and_save_def
            select_latest_def split: if_splits)
    with dfc have d: "download_file_content w (file_id latest_file) (mimeType latest_file) =
                        (Some content, tc)"
      by simp
    from download_success_conditions [OF l assms(4) d ok]
    have s: "makedirs w target_directory" "open_w w (md_path w target_directory)"
      "list_all encodable (artifact_header latest_file @ content)"
      by simp_all
    from download_with_content [OF assms(1,2) l assms(4) s(1) d s(2,3), of fs] ok d
    show ?thesis
      by simp
  qed
  have newest: "(\<forall>g\<in>set (latest_file # rest). at (modifiedTime g) \<le> at (modifiedTime latest_file)) \<and>
      find (\<lambda>g. at (modifiedTime g) = at (modifiedTime latest_file)) (latest_file # rest) =
        Some latest_file \<and>
      spec_select_latest at (latest_file # rest) = Some latest_file"
    if sorted: "newest_first at (latest_file # rest)"
  proof -
    from sorted have "\<forall>g\<in>set rest. at (modifiedTime g) \<le> at (modifiedTime latest_file)"
      by (simp add: newest_first_def)
    moreover from sorted have "sort_desc at (latest_file # rest) = latest_file # rest"
      by (rule sort_desc_newest_first)
    ultimately show ?thesis
      by (simp add: spec_select_latest_def)
  qed
  from first request taken newest show ?thesis
    by blast
qed

theorem fetch_takes_first_of_requested_order_witness:
  "newest_first (\<lambda>stamp. stamp) [meeting_file, twin_file, older_file] \<and>
   modifiedTime twin_file = modifiedTime meeting_file \<and>
   take 3 (snd (snd (download_latest_transcript_from_drive
      (office_world\<lparr>files_list := (\<lambda>q order. if order = ascii ''modifiedTime desc''
          then ListResponse (Some [meeting_file, twin_file, older_file]) else ListRaises)\<rparr>)
      (ascii ''folder'') (ascii ''key.json'') (ascii ''./downloads'') Map.empty))) =
     [LoadCredentials (ascii ''key.json''), BuildService,
      FilesList (drive_query (ascii ''folder'')) (ascii ''modifiedTime desc'')] \<and>
   fst (snd (download_latest_transcript_from_drive
      (office_world\<lparr>files_list := (\<lambda>q order. if order = ascii ''modifiedTime desc''
          then ListResponse (Some [meeting_file, twin_file, older_file]) else ListRaises)\<rparr>)
      (ascii ''folder'') (ascii ''key.json'') (ascii ''./downloads'') Map.empty))
     (ascii ''./downloads/transcript_20240502_101500.md'') =
     Some (File (artifact_header meeting_file @ ascii ''Discussed X. Decided Y.'')) \<and>
   spec_select_latest (\<lambda>stamp. stamp) [meeting_file, twin_file, older_file] = Some meeting_file"
proof -
  let ?fl = "\<lambda>q order. if order = ascii ''modifiedTime desc''
          then ListResponse (Some [meeting_file, twin_file, older_file]) else ListRaises"
  let ?w = "office_world\<lparr>files_list := ?fl\<rparr>"
  let ?D = "download_latest_transcript_from_drive ?w (ascii ''folder'') (ascii ''key.json'')
              (ascii ''./downloads'') Map.empty"
  have sorted: "newest_first (\<lambda>stamp. stamp) (meeting_file # [twin_file, older_file])"
    by (simp add: newest_first_def meeting_file_def twin_file_def older_file_def ascii_simps)
  have h: "from_service_account_file ?w (ascii ''key.json'')" "build ?w"
    "files_list ?w (drive_query (ascii ''folder'')) (ascii ''modifiedTime desc'') =
       ListResponse (Some [meeting_file, twin_file, older_file])"
    "get_files (Some [meeting_file, twin_file, older_file]) = meeting_file # [twin_file, older_file]"
    by (simp_all add: office_world_def get_files_def)
  have "?fl (drive_query (ascii ''folder'')) order_by =
          ListResponse (Some (meeting_file # [twin_file, older_file]))"
    by (simp add: order_by_def)
  moreover have "mimeType meeting_file = text_plain"
    by (simp add: meeting_file_def)
  ultimately have run: "?D =
      ((Some (ascii ''./downloads/transcript_20240502_101500.md''), Some (webViewLink meeting_file)),
       [ascii ''./downloads/transcript_20240502_101500.md'' \<mapsto>
          File (artifact_header meeting_file @ ascii ''Discussed X. Decided Y.'')],
       [LoadCredentials (ascii ''key.json''), BuildService,
        FilesList (drive_query (ascii ''folder'')) order_by,
        Makedirs (ascii ''./downloads''), Download (Get_media (file_id meeting_file)),
        OpenWrite (ascii ''./downloads/transcript_20240502_101500.md'')])"
    using meeting_header_encodable
    by (rule office_listing_download [of ?fl meeting_file "[twin_file, older_file]"])
  then have ok: "fst ?D = (Some (ascii ''./downloads/transcript_20240502_101500.md''),
                          Some (webViewLink meeting_file))"
    by simp
  from fetch_takes_first_of_requested_order
         [OF h, of "ascii ''./downloads''" Map.empty "\<lambda>stamp. stamp"] sorted ok
  have "take 3 (snd (snd ?D)) =
          [LoadCredentials (ascii ''key.json''), BuildService,
           FilesList (drive_query (ascii ''folder'')) (ascii ''modifiedTime desc'')]"
    and "spec_select_latest (\<lambda>stamp. stamp) (meeting_file # [twin_file, older_file]) =
           Some meeting_file"
    and "\<exists>content.
           fst (download_file_content ?w (file_id meeting_file) (mimeType meeting_file)) =
             Some content \<and>
           fst (snd ?D) (ascii ''./downloads/transcript_20240502_101500.md'') =
             Some (File (artifact_header meeting_file @ content))"
    by blast+
  moreover have "fst (download_file_content ?w (file_id meeting_file) (mimeType meeting_file)) =
                   Some (ascii ''Discussed X. Decided Y.'')"
    by (simp add: download_file_content_def extract_content_def meeting_file_def office_world_def
        text_plain_def google_doc_mime_def docx_mime_def decode_utf8_def utf8_head_def ascii_simps)
  ultimately show ?thesis
    using sorted example_stamps(1) by auto
qed

text \<open>
  For an answer that is not in the requested order the entry taken need not be the
  latest: when the document store answers with the older of two entries first, the fetch
  succeeds with the older one, which a sort by time would not have chosen.
\<close>

theorem fetch_selects_newest_counterexample:
  "fst (download_latest_transcript_from_drive
          (office_world\<lparr>files_list := (\<lambda>_ _. ListResponse (Some [older_file, meeting_file]))\<rparr>)
          (ascii ''folder'') (ascii ''key.json'') (ascii ''./downloads'') Map.empty) =
     (Some (ascii ''./downloads/transcript_20240502_101500.md''), Some (webViewLink older_file)) \<and>
   fst (snd (download_latest_transcript_from_drive
          (office_world\<lparr>files_list := (\<lambda>_ _. ListResponse (Some [older_file, meeting_file]))\<rparr>)
          (ascii ''folder'') (ascii ''key.json'') (ascii ''./downloads'') Map.empty))
     (ascii ''./downloads/transcript_20240502_101500.md'') =
     Some (File (artifact_header older_file @ ascii ''Discussed X. Decided Y.'')) \<and>
   modifiedTime older_file < modifiedTime meeting_file \<and>
   spec_select_latest (\<lambda>stamp. stamp) [older_file, meeting_file] = Some meeting_file"
proof -
  have "mimeType older_file = text_plain"
    by (simp add: older_file_def meeting_file_def)
  from office_listing_download
         [of "\<lambda>_ _. ListResponse (Some [older_file, meeting_file])" older_file "[meeting_file]",
          OF refl this example_headers_encodable]
  have "fst (download_latest_transcript_from_drive
          (office_world\<lparr>files_list := (\<lambda>_ _. ListResponse (Some [older_file, meeting_file]))\<rparr>)
          (ascii ''folder'') (ascii ''key.json'') (ascii ''./downloads'') Map.empty) =
     (Some (ascii ''./downloads/transcript_20240502_101500.md''), Some (webViewLink older_file))"
    and "fst (snd (download_latest_transcript_from_drive
          (office_world\<lparr>files_list := (\<lambda>_ _. ListResponse (Some [older_file, meeting_file]))\<rparr>)
          (ascii ''folder'') (ascii ''key.json'') (ascii ''./downloads'') Map.empty))
     (ascii ''./downloads/transcript_20240502_101500.md'') =
     Some (File (artifact_header older_file @ ascii ''Discussed X. Decided Y.''))"
    by simp_all
  moreover have "spec_select_latest (\<lambda>stamp. stamp) [older_file, meeting_file] = Some meeting_file"
    by (simp add: spec_select_latest_def sort_desc_def older_file_def meeting_file_def ascii_simps)
  ultimately show ?thesis
    using example_stamps(2) by simp
qed

section \<open>The shape of the result of the fetch\<close>

text \<open>
  Claim C10. The pair returned by \<open>download_latest_transcript_from_drive\<close> is the path
  of the artifact and the URL of the first entry, both strings, exactly when every step
  returns: the credentials load, the service is built, the listing answers with at least
  one entry, the directory is made, the extraction gives a text, the file opens and every
  write succeeds. On every other path, that is when any of these steps raises or the
  listing is empty or the extraction gives nothing, the pair is \<open>(None, None)\<close>. A pair
  with exactly one \<open>None\<close> is never returned.
\<close>

theorem download_returns_both_or_neither:
  "fst (download_latest_transcript_from_drive w folder_id credentials_path target_directory fs) =
     (if from_service_account_file w credentials_path \<and> build w then
        (case files_list w (drive_query folder_id) order_by of
           ListRaises \<Rightarrow> (None, None)
         | ListResponse r \<Rightarrow>
             (case get_files r of
                [] \<Rightarrow> (None, None)
              | latest_file # _ \<Rightarrow>
                  (case fst (download_file_content w (file_id latest_file) (mimeType latest_file)) of
                     None \<Rightarrow> (None, None)
                   | Some content \<Rightarrow>
                       if makedirs w target_directory \<and> open_w w (md_path w target_directory) \<and>
                          list_all encodable (artifact_header latest_file @ content)
                       then (Some (md_path w target_directory), Some (webViewLink latest_file))
                       else (None, None))))
      else (None, None)) \<and>
   (fst (download_latest_transcript_from_drive w folder_id credentials_path target_directory fs)
      = (None, None) \<or>
    (\<exists>md_filepath web_view_link.
       fst (download_latest_transcript_from_drive w folder_id credentials_path target_directory fs)
         = (Some md_filepath, Some web_view_link)))"
proof -
  let ?D = "download_latest_transcript_from_drive w folder_id credentials_path target_directory fs"
  have closed: "fst ?D =
     (if from_service_account_file w credentials_path \<and> build w then
        (case files_list w (drive_query folder_id) order_by of
           ListRaises \<Rightarrow> (None, None)
         | ListResponse r \<Rightarrow>
             (case get_files r of
                [] \<Rightarrow> (None, None)
              | latest_file # _ \<Rightarrow>
                  (case fst (download_file_content w (file_id latest_file) (mimeType latest_file)) of
                     None \<Rightarrow> (None, None)
                   | Some content \<Rightarrow>
                       if makedirs w target_directory \<and> open_w w (md_path w target_directory) \<and>
                          list_all encodable (artifact_header latest_file @ content)
                       then (Some (md_path w target_directory), Some (webViewLink latest_file))
                       else (None, None))))
      else (None, None))"
  proof (cases "from_service_account_file w credentials_path \<and> build w")
    case False
    then show ?thesis
      by (auto simp: download_latest_transcript_from_drive_def)
  next
    case cb: True
    show ?thesis
    proof (cases "files_list w (drive_query folder_id) order_by")
      case ListRaises
      with cb show ?thesis
        by (simp add: download_latest_transcript_from_drive_def)
    next
      case (ListResponse r)
      show ?thesis
      proof (cases "get_files r")
        case Nil
        with cb ListResponse show ?thesis
          by (simp add: download_latest_transcript_from_drive_def fetch_and_save_def
              select_latest_def)
      next
        case (Cons latest_file rest)
        obtain c t where dfc:
          "download_file_content w (file_id latest_file) (mimeType latest_file) = (c, t)"
          by (cases "download_file_content w (file_id latest_file) (mimeType latest_file)")
        show ?thesis
        proof (cases c)
          case None
          with cb ListResponse Cons dfc show ?thesis
            by (simp add: download_latest_transcript_from_drive_def fetch_and_save_def
                select_latest_def)
        next
          case (Some content)
          have "fst (save_markdown w target_directory latest_file content fs) =
                  (if open_w w (md_path w target_directory) \<and>
                      list_all encodable (artifact_header latest_file @ content)
                   then (Some (md_path w target_directory), Some (webViewLink latest_file))
                   else (None, None))"
            by (auto simp: save_markdown_def Let_def write_all_result artifact_header_def
                list_all_iff split: bool.splits)
          with cb ListResponse Cons dfc Some show ?thesis
            by (cases "save_markdown w target_directory latest_file content fs")
               (auto simp: download_latest_transcript_from_drive_def fetch_and_save_def
                select_latest_def)
        qed
      qed
    qed
  qed
  then have "fst ?D = (None, None) \<or> (\<exists>md_filepath web_view_link.
       fst ?D = (Some md_filepath, Some web_view_link))"
    by (auto split: list_result.splits list.splits option.splits if_splits)
  with closed show ?thesis
    by blast
qed

theorem download_returns_both_or_neither_witness:
  "fst (download_latest_transcript_from_drive office_world (ascii ''folder'') (ascii ''key.json'')
          (ascii ''./downloads'') Map.empty) =
     (Some (ascii ''./downloads/transcript_20240502_101500.md''),
      Some (ascii ''https://docs.google.com/document/d/f1'')) \<and>
   fst (download_latest_transcript_from_drive
          (office_world\<lparr>from_service_account_file := (\<lambda>_. False)\<rparr>)
          (ascii ''folder'') (ascii ''key.json'') (ascii ''./downloads'') Map.empty) = (None, None) \<and>
   fst (download_latest_transcript_from_drive
          (office_world\<lparr>files_list := (\<lambda>_ _. ListRaises)\<rparr>)
          (ascii ''folder'') (ascii ''key.json'') (ascii ''./downloads'') Map.empty) = (None, None) \<and>
   fst (download_latest_transcript_from_drive
          (office_world\<lparr>media := (\<lambda>_. More ''Discussed'' Fails)\<rparr>)
          (ascii ''folder'') (ascii ''key.json'') (ascii ''./downloads'') Map.empty) = (None, None) \<and>
   fst (download_latest_transcript_from_drive
          (office_world\<lparr>open_w := (\<lambda>_. False)\<rparr>)
          (ascii ''folder'') (ascii ''key.json'') (ascii ''./downloads'') Map.empty) = (None, None)"
proof -
  have dfc: "download_file_content (office_world\<lparr>open_w := ow\<rparr>) (file_id meeting_file)
               (mimeType meeting_file) =
             (Some (ascii ''Discussed X. Decided Y.''), [Download (Get_media (ascii ''f1''))])" for ow
    by (simp add: download_file_content_def extract_content_def meeting_file_def office_world_def
        text_plain_def google_doc_mime_def docx_mime_def decode_utf8_def utf8_head_def ascii_simps)
  have failing: "download_file_content (office_world\<lparr>media := (\<lambda>_. More ''Discussed'' Fails)\<rparr>)
                   (file_id meeting_file) (mimeType meeting_file) =
                 (None, [Download (Get_media (ascii ''f1'')), Log Error FileContentException])"
    by (simp add: download_file_content_def extract_content_def meeting_file_def office_world_def
        text_plain_def google_doc_mime_def docx_mime_def ascii_simps)
  have enc: "list_all encodable (artifact_header meeting_file @ ascii ''Discussed X. Decided Y.'')"
    using meeting_header_encodable by (simp add: encodable_def ascii_simps)
  have a: "fst (download_latest_transcript_from_drive office_world (ascii ''folder'')
                  (ascii ''key.json'') (ascii ''./downloads'') Map.empty) =
           (Some (md_path office_world (ascii ''./downloads'')), Some (webViewLink meeting_file))"
    using download_returns_both_or_neither
            [of office_world "ascii ''folder''" "ascii ''key.json''" "ascii ''./downloads''" Map.empty]
          dfc [of "\<lambda>_. True"] enc
    by (simp add: office_world_def get_files_def)
  have b: "fst (download_latest_transcript_from_drive
                  (office_world\<lparr>from_service_account_file := (\<lambda>_. False)\<rparr>)
                  (ascii ''folder'') (ascii ''key.json'') (ascii ''./downloads'') Map.empty) =
           (None, None)"
    using download_returns_both_or_neither
            [of "office_world\<lparr>from_service_account_file := (\<lambda>_. False)\<rparr>" "ascii ''folder''"
                "ascii ''key.json''" "ascii ''./downloads''" Map.empty]
    by (simp add: office_world_def)
  have c: "fst (download_latest_transcript_from_drive
                  (office_world\<lparr>files_list := (\<lambda>_ _. ListRaises)\<rparr>)
                  (ascii ''folder'') (ascii ''key.json'') (ascii ''./downloads'') Map.empty) =
           (None, None)"
    using download_returns_both_or_neither
            [of "office_world\<lparr>files_list := (\<lambda>_ _. ListRaises)\<rparr>" "ascii ''folder''"
                "ascii ''key.json''" "ascii ''./downloads''" Map.empty]
    by (simp add: office_world_def)
  have d: "fst (download_latest_transcript_from_drive
                  (office_world\<lparr>media := (\<lambda>_. More ''Discussed'' Fails)\<rparr>)
                  (ascii ''folder'') (ascii ''key.json'') (ascii ''./downloads'') Map.empty) =
           (None, None)"
    using download_returns_both_or_neither
            [of "office_world\<lparr>media := (\<lambda>_. More ''Discussed'' Fails)\<rparr>" "ascii ''folder''"
                "ascii ''key.json''" "ascii ''./downloads''" Map.empty]
          failing
    by (simp add: office_world_def get_files_def)
  have e: "fst (download_latest_transcript_from_drive
                  (office_world\<lparr>open_w := (\<lambda>_. False)\<rparr>)
                  (ascii ''folder'') (ascii ''key.json'') (ascii ''./downloads'') Map.empty) =
           (None, None)"
    using download_returns_both_or_neither
            [of "office_world\<lparr>open_w := (\<lambda>_. False)\<rparr>" "ascii ''folder''"
                "ascii ''key.json''" "ascii ''./downloads''" Map.empty]
          dfc [of "\<lambda>_. False"]
    by (simp add: office_world_def get_files_def)
  have p: "md_path office_world (ascii ''./downloads'') =
             ascii ''./downloads/transcript_20240502_101500.md''"
    by (simp add: md_path_def path_join_def office_world_def ascii_simps)
  from a b c d e show ?thesis
    by (simp add: p meeting_file_def)
qed

end
